theory Spec2Isabelle
  imports Main "HOL-Library.Sublist" "HOL-Library.Char_ord" "HOL-Library.List_Lexorder"
    "HOL-Library.Multiset" "HOL-Library.AList"
begin

section \<open>The Go standard library, as far as the program calls it\<close>

text \<open>
  Go strings are byte sequences, so a Go \<^verbatim>\<open>string\<close> is a \<^typ>\<open>string\<close> here
  (a list of 8-bit characters) and \<^verbatim>\<open>len\<close> is \<^const>\<open>length\<close>.
  The functions of package \<^verbatim>\<open>strings\<close> below follow the package documentation.
  \<^verbatim>\<open>Split\<close>, \<^verbatim>\<open>Index\<close> and \<^verbatim>\<open>ReplaceAll\<close> are only ever called with a
  one-byte separator or pattern (\<^verbatim>\<open>","\<close>, \<^verbatim>\<open>"/"\<close>, \<^verbatim>\<open>":"\<close>, \<^verbatim>\<open>"="\<close>,
  \<^verbatim>\<open>"{"\<close>, \<^verbatim>\<open>"}"\<close>), so the model takes that byte.
\<close>

subsection \<open>Package strings\<close>

definition HasPrefix :: "string \<Rightarrow> string \<Rightarrow> bool" where
  "HasPrefix s p = prefix p s"

definition HasSuffix :: "string \<Rightarrow> string \<Rightarrow> bool" where
  "HasSuffix s p = suffix p s"

definition TrimPrefix :: "string \<Rightarrow> string \<Rightarrow> string" where
  "TrimPrefix s p = (if HasPrefix s p then drop (length p) s else s)"

definition TrimSuffix :: "string \<Rightarrow> string \<Rightarrow> string" where
  "TrimSuffix s p = (if HasSuffix s p then take (length s - length p) s else s)"

text \<open>\<^verbatim>\<open>strings.Split(s, sep)\<close>: the pieces between the separators; never empty.\<close>

primrec Split :: "string \<Rightarrow> char \<Rightarrow> string list" where
  "Split [] sep = [[]]"
| "Split (c # cs) sep =
     (if c = sep then [] # Split cs sep
      else (case Split cs sep of w # ws \<Rightarrow> (c # w) # ws | [] \<Rightarrow> [[c]]))"

text \<open>
  \<^verbatim>\<open>strings.Index(s, sep)\<close>: the position of the first separator, or \<open>-1\<close>;
  \<open>indexOf\<close> is the same search with the position as an option.
\<close>

primrec indexOf :: "string \<Rightarrow> char \<Rightarrow> nat option" where
  "indexOf [] sep = None"
| "indexOf (c # cs) sep = (if c = sep then Some 0 else map_option Suc (indexOf cs sep))"

definition Index :: "string \<Rightarrow> char \<Rightarrow> int" where
  "Index s sep = (case indexOf s sep of None \<Rightarrow> - 1 | Some i \<Rightarrow> int i)"

text \<open>
  \<^verbatim>\<open>strings.SplitN(s, sep, 2)\<close>: at most two pieces, cut at the first separator.
\<close>

definition SplitN2 :: "string \<Rightarrow> char \<Rightarrow> string list" where
  "SplitN2 s sep =
     (case indexOf s sep of None \<Rightarrow> [s] | Some i \<Rightarrow> [take i s, drop (Suc i) s])"

text \<open>\<^verbatim>\<open>strings.ReplaceAll(s, old, new)\<close> for a one-byte \<open>old\<close>.\<close>

primrec ReplaceAll :: "string \<Rightarrow> char \<Rightarrow> string \<Rightarrow> string" where
  "ReplaceAll [] old new = []"
| "ReplaceAll (c # cs) old new = (if c = old then new else [c]) @ ReplaceAll cs old new"

text \<open>\<^verbatim>\<open>strings.Replace(s, old, new, 1)\<close>: the first occurrence only.\<close>

fun Replace1 :: "string \<Rightarrow> string \<Rightarrow> string \<Rightarrow> string" where
  "Replace1 [] old new = (if old = [] then new else [])"
| "Replace1 (c # cs) old new =
     (if prefix old (c # cs) then new @ drop (length old) (c # cs)
      else c # Replace1 cs old new)"

text \<open>
  \<^verbatim>\<open>strings.TrimSpace\<close> removes leading and trailing Unicode white space. In UTF-8 the
  white-space code points are the byte sequences of \<open>spaceRunes\<close>: the six ASCII
  ones, U+0085, U+00A0, U+1680, U+2000 to U+200A, U+2028, U+2029, U+202F, U+205F and
  U+3000.
\<close>

definition spaceRunes :: "string list" where
  "spaceRunes =
     [[CHR 0x09], [CHR 0x0A], [CHR 0x0B], [CHR 0x0C], [CHR 0x0D], [CHR 0x20],
      [CHR 0xC2, CHR 0x85], [CHR 0xC2, CHR 0xA0], [CHR 0xE1, CHR 0x9A, CHR 0x80],
      [CHR 0xE2, CHR 0x80, CHR 0x80], [CHR 0xE2, CHR 0x80, CHR 0x81],
      [CHR 0xE2, CHR 0x80, CHR 0x82], [CHR 0xE2, CHR 0x80, CHR 0x83],
      [CHR 0xE2, CHR 0x80, CHR 0x84], [CHR 0xE2, CHR 0x80, CHR 0x85],
      [CHR 0xE2, CHR 0x80, CHR 0x86], [CHR 0xE2, CHR 0x80, CHR 0x87],
      [CHR 0xE2, CHR 0x80, CHR 0x88], [CHR 0xE2, CHR 0x80, CHR 0x89],
      [CHR 0xE2, CHR 0x80, CHR 0x8A], [CHR 0xE2, CHR 0x80, CHR 0xA8],
      [CHR 0xE2, CHR 0x80, CHR 0xA9], [CHR 0xE2, CHR 0x80, CHR 0xAF],
      [CHR 0xE2, CHR 0x81, CHR 0x9F], [CHR 0xE3, CHR 0x80, CHR 0x80]]"

fun dropRunes :: "string list \<Rightarrow> string \<Rightarrow> string" where
  "dropRunes ws [] = []"
| "dropRunes ws (c # cs) =
     (case find (\<lambda>w. w \<noteq> [] \<and> prefix w (c # cs)) ws of
        None \<Rightarrow> c # cs
      | Some w \<Rightarrow> dropRunes ws (drop (length w - 1) cs))"

definition TrimSpace :: "string \<Rightarrow> string" where
  "TrimSpace s = rev (dropRunes (map rev spaceRunes) (rev (dropRunes spaceRunes s)))"

text \<open>
  \<^verbatim>\<open>ToLower\<close>, \<^verbatim>\<open>ToUpper\<close> and \<^verbatim>\<open>EqualFold\<close> need the tables of package
  \<^verbatim>\<open>unicode\<close>; they follow the record \<open>lib\<close> below.
\<close>

subsection \<open>Package strconv\<close>

text \<open>
  \<^verbatim>\<open>strconv.Atoi\<close>: an optional sign, then one or more decimal digits, and a value
  that fits Go's \<^verbatim>\<open>int\<close> (64 bits on the platforms the program is built for);
  anything else is an error, here \<open>None\<close>.
\<close>

definition isDigit :: "char \<Rightarrow> bool" where
  "isDigit c = (CHR ''0'' \<le> c \<and> c \<le> CHR ''9'')"

definition digitVal :: "char \<Rightarrow> int" where
  "digitVal c = int (of_char c) - 48"

definition Atoi :: "string \<Rightarrow> int option" where
  "Atoi s =
     (let neg = (take 1 s = ''-'');
          ds = (if take 1 s = ''-'' \<or> take 1 s = ''+'' then drop 1 s else s);
          n = foldl (\<lambda>a c. a * 10 + digitVal c) 0 ds;
          v = (if neg then - n else n)
      in if ds = [] \<or> \<not> list_all isDigit ds then None
         else if - (2 ^ 63) \<le> v \<and> v < 2 ^ 63 then Some v else None)"

text \<open>\<^verbatim>\<open>strconv.ParseBool\<close> accepts exactly these twelve spellings.\<close>

definition ParseBool :: "string \<Rightarrow> bool option" where
  "ParseBool s =
     (if s \<in> set [''1'', ''t'', ''T'', ''TRUE'', ''true'', ''True''] then Some True
      else if s \<in> set [''0'', ''f'', ''F'', ''FALSE'', ''false'', ''False''] then Some False
      else None)"

section \<open>The data model (app/models/models.go)\<close>

text \<open>
  The structs keep the fields the program reads. A Go map that the program ranges over
  is an association list: the list order is the order in which one run of the
  \<^verbatim>\<open>range\<close> statement visits the entries, which Go leaves unspecified. A lookup is
  \<^const>\<open>map_of\<close>. A pointer field is an option, \<open>None\<close> being \<^verbatim>\<open>nil\<close>.
\<close>

record Server =
  Server_URL :: string

datatype SchemaRef = SchemaRef
  (SchemaRef_Type: string)
  (SchemaRef_Properties: "(string \<times> SchemaRef option) list")
  (SchemaRef_Items: "SchemaRef option")
  (SchemaRef_Ref: string)

record Property =
  Property_Type :: string

record Definition =
  Definition_Properties :: "(string \<times> Property) list"

record Components =
  Schemas :: "(string \<times> Definition) list"

record Parameter =
  Name :: string
  In :: string
  Required :: bool
  Parameter_Type :: string
  Parameter_Schema :: "SchemaRef option"

record MediaType =
  MediaType_Schema :: "SchemaRef option"

record RequestBody =
  Content :: "(string \<times> MediaType) list"

record Endpoint =
  Summary :: string
  Description :: string
  Parameters :: "Parameter list"
  Endpoint_RequestBody :: "RequestBody option"

record SwaggerSpec =
  Host :: string
  BasePath :: string
  OpenAPI :: string
  Servers :: "Server list"
  Spec_Components :: "Components option"
  Paths :: "(string \<times> (string \<times> Endpoint) list) list"
  Definitions :: "(string \<times> Definition) list"

record ApiConfig =
  BaseUrl :: string
  IncludePaths :: string
  ExcludePaths :: string
  IncludeMethods :: string
  ExcludeMethods :: string
  Security :: string
  BasicAuth :: string
  ApiKeyAuth :: string
  BearerAuth :: string
  Headers :: string

section \<open>Requests and the libraries behind them\<close>

text \<open>
  A JSON value, as \<^verbatim>\<open>interface{}\<close> holds it: the arguments of a tool call and the
  fields of the outbound body. Floating-point numbers stay abstract.
\<close>

typedecl float64

datatype json =
    JNull
  | JBool bool
  | JInt int
  | JFloat float64
  | JString string
  | JArray "json list"
  | JObject "(string \<times> json) list"

text \<open>
  \<^verbatim>\<open>url.URL\<close>: the program only reads and writes the raw query; the other
  components are kept together. \<^verbatim>\<open>url.Values\<close> maps a name to its values.
  \<^verbatim>\<open>http.Header\<close> maps a canonical header name to its values.
\<close>

record URL =
  URL_Rest :: string
  RawQuery :: string

type_synonym Values = "(string \<times> string list) list"

record Request =
  Method :: string
  Request_URL :: URL
  Header :: "(string \<times> string list) list"
  Body :: string

text \<open>
  What the program calls and this development does not define: the case mapping and
  case folding of text that is not ASCII, regular expressions,
  floating-point and JSON parsing, JSON printing, URL parsing and printing, request
  construction, header-name canonicalisation, cookie sanitising, base64 and the HTTP
  transport. Each is a field of the record \<open>lib\<close>, and every theorem holds for every
  such record. An error is the left injection, carrying the error's text.
  \<open>http_NewRequest\<close> takes the method and the URL, on which alone its error
  depends; the model then attaches the body.
  \<open>client_Do\<close> is \<^verbatim>\<open>client.Do\<close> followed by \<^verbatim>\<open>io.ReadAll\<close> of the response
  body: the transport's error, or the read's error, or the body.
\<close>

record 'r lib =
  unicode_ToLower :: "string \<Rightarrow> string"
  unicode_ToUpper :: "string \<Rightarrow> string"
  unicode_EqualFold :: "string \<Rightarrow> string \<Rightarrow> bool"
  regexp_Compile :: "string \<Rightarrow> 'r option"
  regexp_MatchString :: "'r \<Rightarrow> string \<Rightarrow> bool"
  strconv_ParseFloat :: "string \<Rightarrow> float64 option"
  json_UnmarshalArray :: "string \<Rightarrow> json option"
  json_UnmarshalObject :: "string \<Rightarrow> json option"
  json_Marshal :: "(string \<rightharpoonup> json) \<Rightarrow> string + string"
  url_Parse :: "string \<Rightarrow> string + URL"
  url_String :: "URL \<Rightarrow> string"
  url_ParseQuery :: "string \<Rightarrow> Values"
  http_NewRequest :: "string \<Rightarrow> string \<Rightarrow> string + Request"
  http_CanonicalHeaderKey :: "string \<Rightarrow> string"
  http_cookieString :: "string \<Rightarrow> string \<Rightarrow> string"
  base64_EncodeToString :: "string \<Rightarrow> string"
  client_Do :: "Request \<Rightarrow> string + (string + string)"

subsection \<open>Case mapping (package strings)\<close>

text \<open>
  \<^verbatim>\<open>strings.ToLower\<close> and \<^verbatim>\<open>strings.ToUpper\<close> first scan the bytes: when none
  is \<^verbatim>\<open>utf8.RuneSelf\<close> (128) or above, they shift the ASCII letters and return;
  otherwise they map every rune by the Unicode tables, which is the library's part.
  \<^verbatim>\<open>strings.EqualFold\<close> compares byte by byte, ASCII letters without regard to case,
  as long as both bytes are below 128, and folds by the Unicode tables from the first
  byte that is not (the Kelvin sign folds to \<^verbatim>\<open>k\<close>, for one); two ASCII strings are
  equal under folding exactly when they are equal up to the case of the ASCII letters.
\<close>

definition isASCII :: "string \<Rightarrow> bool" where
  "isASCII s = list_all (\<lambda>c. (of_char c :: nat) < 128) s"

definition lowerByte :: "char \<Rightarrow> char" where
  "lowerByte c = (if CHR ''A'' \<le> c \<and> c \<le> CHR ''Z'' then char_of (of_char c + (32::nat)) else c)"

definition upperByte :: "char \<Rightarrow> char" where
  "upperByte c = (if CHR ''a'' \<le> c \<and> c \<le> CHR ''z'' then char_of (of_char c - (32::nat)) else c)"

definition ToLower :: "'r lib \<Rightarrow> string \<Rightarrow> string" where
  "ToLower l s = (if isASCII s then map lowerByte s else unicode_ToLower l s)"

definition ToUpper :: "'r lib \<Rightarrow> string \<Rightarrow> string" where
  "ToUpper l s = (if isASCII s then map upperByte s else unicode_ToUpper l s)"

definition EqualFold :: "'r lib \<Rightarrow> string \<Rightarrow> string \<Rightarrow> bool" where
  "EqualFold l s t =
     (if isASCII s \<and> isASCII t then map lowerByte s = map lowerByte t
      else unicode_EqualFold l s t)"

subsection \<open>url.Values\<close>

text \<open>
  \<^verbatim>\<open>Values.Set\<close> replaces the values of a name. \<^verbatim>\<open>Values.Encode\<close> prints the
  pairs \<^verbatim>\<open>name=value\<close>, both query-escaped, joined by \<^verbatim>\<open>&\<close> and sorted by
  name. \<^verbatim>\<open>url.QueryEscape\<close> keeps letters, digits, \<^verbatim>\<open>-\<close>, \<^verbatim>\<open>_\<close>, \<^verbatim>\<open>.\<close> and
  \<^verbatim>\<open>~\<close>, turns a space into \<^verbatim>\<open>+\<close> and every other byte into \<^verbatim>\<open>%XX\<close>.
\<close>

definition Values_Set :: "Values \<Rightarrow> string \<Rightarrow> string \<Rightarrow> Values" where
  "Values_Set q k v = AList.update k [v] q"

definition unreserved :: "char \<Rightarrow> bool" where
  "unreserved c =
     ((CHR ''a'' \<le> c \<and> c \<le> CHR ''z'') \<or> (CHR ''A'' \<le> c \<and> c \<le> CHR ''Z'')
      \<or> (CHR ''0'' \<le> c \<and> c \<le> CHR ''9'')
      \<or> c = CHR ''-'' \<or> c = CHR ''_'' \<or> c = CHR ''.'' \<or> c = CHR ''~'')"

definition upperhex :: "nat \<Rightarrow> char" where
  "upperhex n = ''0123456789ABCDEF'' ! n"

definition escapeByte :: "char \<Rightarrow> string" where
  "escapeByte c =
     (if unreserved c then [c]
      else if c = CHR '' '' then ''+''
      else [CHR ''%'', upperhex (of_char c div 16), upperhex (of_char c mod 16)])"

definition QueryEscape :: "string \<Rightarrow> string" where
  "QueryEscape s = concat (map escapeByte s)"

fun joinAmp :: "string list \<Rightarrow> string" where
  "joinAmp [] = []"
| "joinAmp [x] = x"
| "joinAmp (x # y # ys) = x @ CHR ''&'' # joinAmp (y # ys)"

definition encodedPairs :: "Values \<Rightarrow> string list" where
  "encodedPairs v =
     concat (map (\<lambda>k. map (\<lambda>x. QueryEscape k @ CHR ''='' # QueryEscape x)
                        (case map_of v k of None \<Rightarrow> [] | Some xs \<Rightarrow> xs))
                 (sort (remdups (map fst v))))"

definition Values_Encode :: "Values \<Rightarrow> string" where
  "Values_Encode v = joinAmp (encodedPairs v)"

subsection \<open>http.Header and cookies\<close>

definition Header_Get :: "'r lib \<Rightarrow> (string \<times> string list) list \<Rightarrow> string \<Rightarrow> string" where
  "Header_Get l h k =
     (case map_of h (http_CanonicalHeaderKey l k) of Some (v # vs) \<Rightarrow> v | _ \<Rightarrow> [])"

definition Header_Set ::
  "'r lib \<Rightarrow> (string \<times> string list) list \<Rightarrow> string \<Rightarrow> string \<Rightarrow> (string \<times> string list) list" where
  "Header_Set l h k v = AList.update (http_CanonicalHeaderKey l k) [v] h"

definition Header_Add ::
  "'r lib \<Rightarrow> (string \<times> string list) list \<Rightarrow> string \<Rightarrow> string \<Rightarrow> (string \<times> string list) list" where
  "Header_Add l h k v =
     AList.update (http_CanonicalHeaderKey l k)
       ((case map_of h (http_CanonicalHeaderKey l k) of None \<Rightarrow> [] | Some vs \<Rightarrow> vs) @ [v]) h"

text \<open>
  \<^verbatim>\<open>Request.AddCookie\<close> appends the sanitised \<^verbatim>\<open>name=value\<close> to the
  \<^verbatim>\<open>Cookie\<close> header, after \<^verbatim>\<open>"; "\<close> when the header already has a value.
\<close>

definition AddCookie :: "'r lib \<Rightarrow> Request \<Rightarrow> string \<Rightarrow> string \<Rightarrow> Request" where
  "AddCookie l req name val =
     (let s = http_cookieString l name val;
          c = Header_Get l (Header req) ''Cookie''
      in if c \<noteq> [] then req\<lparr>Header := Header_Set l (Header req) ''Cookie'' (c @ ''; '' @ s)\<rparr>
         else req\<lparr>Header := Header_Set l (Header req) ''Cookie'' s\<rparr>)"

section \<open>The path and method filter\<close>

text \<open>
  \<^verbatim>\<open>compileRegexes\<close>: the comma-separated patterns, trimmed; an empty one is
  skipped, and so is one that does not compile (it is logged).
\<close>

fun compileLoop :: "'r lib \<Rightarrow> string list \<Rightarrow> 'r list" where
  "compileLoop l [] = []"
| "compileLoop l (p # ps) =
     (let path = TrimSpace p
      in if path \<noteq> [] then
           (case regexp_Compile l path of
              None \<Rightarrow> compileLoop l ps
            | Some regex \<Rightarrow> regex # compileLoop l ps)
         else compileLoop l ps)"

definition compileRegexes :: "'r lib \<Rightarrow> string \<Rightarrow> 'r list" where
  "compileRegexes l paths = compileLoop l (Split paths (CHR '',''))"

definition shouldIncludePath :: "'r lib \<Rightarrow> string \<Rightarrow> 'r list \<Rightarrow> 'r list \<Rightarrow> bool" where
  "shouldIncludePath l path includeRegexes excludeRegexes =
     (let include = (length includeRegexes = 0
                     \<or> list_ex (\<lambda>regex. regexp_MatchString l regex path) includeRegexes)
      in if \<not> include then False
         else \<not> list_ex (\<lambda>regex. regexp_MatchString l regex path) excludeRegexes)"

definition shouldIncludeMethod ::
  "'r lib \<Rightarrow> string \<Rightarrow> string list \<Rightarrow> string list \<Rightarrow> bool" where
  "shouldIncludeMethod l method includeMethods excludeMethods =
     (let include = (length includeMethods = 0
                     \<or> list_ex (\<lambda>m. EqualFold l (TrimSpace m) method) includeMethods)
      in if \<not> include then False
         else \<not> list_ex (\<lambda>m. EqualFold l (TrimSpace m) method) excludeMethods)"

section \<open>Schema names\<close>

text \<open>
  \<^verbatim>\<open>ExtractSchemaName(ref, schemaType)\<close>: the last \<^verbatim>\<open>/\<close>-separated part of a
  non-empty reference, else the inline type.
\<close>

definition ExtractSchemaName :: "string \<Rightarrow> string \<Rightarrow> string" where
  "ExtractSchemaName ref schemaType =
     (if ref \<noteq> [] then last (Split ref (CHR ''/'')) else schemaType)"

section \<open>Tool derivation (LoadSwaggerServer)\<close>

text \<open>
  \<^verbatim>\<open>LoadSwaggerServer\<close> registers one tool per retained operation: a name, the
  declared inputs (\<^verbatim>\<open>mcp.ToolOption\<close>s) and a handler that closes over the request
  URL, the method, the three lists of parameter names and the map from body field to
  type tag. The model returns what it registers, in registration order.
  Reading a field through a \<^verbatim>\<open>nil\<close> pointer panics; nothing in the program
  recovers, so the fault ends the derivation. The list \<^verbatim>\<open>expectedResponse\<close> is
  built from the responses and never read, and the \<^verbatim>\<open>Printf\<close> calls only log:
  both are left out.
\<close>

datatype fault = NilPointerDereference

datatype ToolOption =
    WithString string string bool
  | WithDescription string

record ToolDescriptor =
  Tool_Name :: string
  Tool_Options :: "ToolOption list"
  Tool_reqPathParam :: "string list"
  Tool_reqQueryParam :: "string list"
  Tool_reqURL :: string
  Tool_reqBody :: "(string \<times> string) list"
  Tool_reqMethod :: string
  Tool_reqHeader :: "string list"

text \<open>Lines 160 to 183: the base URL and the request URL.\<close>

definition baseURL_of :: "SwaggerSpec \<Rightarrow> ApiConfig \<Rightarrow> string" where
  "baseURL_of swaggerSpec apiCfg =
     (if BaseUrl apiCfg = [] then
        (if OpenAPI swaggerSpec \<noteq> [] then
           (case Servers swaggerSpec of
              server # others \<Rightarrow> TrimSuffix (Server_URL server) ''/''
            | [] \<Rightarrow> ''/'')
         else
           (let host = (if \<not> HasPrefix (Host swaggerSpec) ''http://''
                           \<and> \<not> HasPrefix (Host swaggerSpec) ''https://''
                        then ''https://'' @ Host swaggerSpec else Host swaggerSpec)
            in if BasePath swaggerSpec \<noteq> [] then
                 TrimSuffix host ''/'' @ ''/'' @ TrimPrefix (BasePath swaggerSpec) ''/''
               else host))
      else BaseUrl apiCfg)"

definition reqURL_of :: "SwaggerSpec \<Rightarrow> ApiConfig \<Rightarrow> string \<Rightarrow> string" where
  "reqURL_of swaggerSpec apiCfg path =
     TrimSuffix (baseURL_of swaggerSpec apiCfg) ''/'' @ ''/'' @ TrimPrefix path ''/''"

text \<open>
  Lines 191 to 242: one loop per location over the parameter list; each parameter
  there is declared as a string input, required or not, and its name recorded.
\<close>

definition paramOption :: "Parameter \<Rightarrow> ToolOption" where
  "paramOption param = WithString (Name param) (''The data for '' @ Name param) (Required param)"

definition paramsIn :: "string \<Rightarrow> Parameter list \<Rightarrow> Parameter list" where
  "paramsIn loc params = filter (\<lambda>param. In param = loc) params"

text \<open>
  Lines 243 to 257: every \<^verbatim>\<open>body\<close> parameter's schema is looked up in
  \<^verbatim>\<open>definitions\<close>; each property of the definition found becomes a required
  input and an entry of the body field map.
\<close>

definition bodyOption :: "string \<Rightarrow> string \<Rightarrow> ToolOption" where
  "bodyOption propName propType =
     WithString propName
       (''The data for '' @ propName @ '', it should be in format of '' @ propType) True"

fun definitionLoop ::
  "(string \<times> Property) list \<Rightarrow> ToolOption list \<times> (string \<times> string) list
     \<Rightarrow> ToolOption list \<times> (string \<times> string) list" where
  "definitionLoop [] st = st"
| "definitionLoop ((propName, prop) # rest) (opts, body) =
     definitionLoop rest
       (opts @ [bodyOption propName (Property_Type prop)],
        AList.update propName (Property_Type prop) body)"

fun bodyParamLoop ::
  "SwaggerSpec \<Rightarrow> Parameter list \<Rightarrow> ToolOption list \<times> (string \<times> string) list
     \<Rightarrow> fault + ToolOption list \<times> (string \<times> string) list" where
  "bodyParamLoop swaggerSpec [] st = Inr st"
| "bodyParamLoop swaggerSpec (param # rest) st =
     (if In param = ''body'' then
        (case Parameter_Schema param of
           None \<Rightarrow> Inl NilPointerDereference
         | Some schema \<Rightarrow>
             (case map_of (Definitions swaggerSpec)
                     (ExtractSchemaName (SchemaRef_Ref schema) (Parameter_Type param)) of
                Some definition \<Rightarrow>
                  bodyParamLoop swaggerSpec rest
                    (definitionLoop (Definition_Properties definition) st)
              | None \<Rightarrow> bodyParamLoop swaggerSpec rest st))
      else bodyParamLoop swaggerSpec rest st)"

text \<open>
  Lines 258 to 289: every content entry of the request body is looked up in
  \<^verbatim>\<open>components.schemas\<close>. For a property of type \<^verbatim>\<open>array\<close> the media type's
  own schema is asked for a property named like the schema; the properties of its
  \<^verbatim>\<open>items\<close> are declared as required inputs. Then the property itself is declared
  and entered into the body field map.
\<close>

definition itemOption :: "string \<Rightarrow> string \<Rightarrow> ToolOption" where
  "itemOption propName propType =
     WithString propName
       (''The item  for '' @ propName @ '', it should be in format of '' @ propType) True"

fun itemLoop ::
  "(string \<times> SchemaRef option) list \<Rightarrow> ToolOption list \<Rightarrow> fault + ToolOption list" where
  "itemLoop [] opts = Inr opts"
| "itemLoop ((propName, prop) # rest) opts =
     (case prop of
        None \<Rightarrow> Inl NilPointerDereference
      | Some p \<Rightarrow> itemLoop rest (opts @ [itemOption propName (SchemaRef_Type p)]))"

definition arrayItems ::
  "SchemaRef \<Rightarrow> string \<Rightarrow> Property \<Rightarrow> ToolOption list \<Rightarrow> fault + ToolOption list" where
  "arrayItems schema schemaName prop opts =
     (if Property_Type prop = ''array'' then
        (case map_of (SchemaRef_Properties schema) schemaName of
           Some (Some schemaProp) \<Rightarrow>
             (case SchemaRef_Items schemaProp of
                None \<Rightarrow> Inl NilPointerDereference
              | Some items \<Rightarrow> itemLoop (SchemaRef_Properties items) opts)
         | _ \<Rightarrow> Inr opts)
      else Inr opts)"

fun schemaLoop ::
  "SchemaRef \<Rightarrow> string \<Rightarrow> (string \<times> Property) list
     \<Rightarrow> ToolOption list \<times> (string \<times> string) list
     \<Rightarrow> fault + ToolOption list \<times> (string \<times> string) list" where
  "schemaLoop schema schemaName [] st = Inr st"
| "schemaLoop schema schemaName ((propName, prop) # rest) (opts, body) =
     (case arrayItems schema schemaName prop opts of
        Inl e \<Rightarrow> Inl e
      | Inr opts' \<Rightarrow>
          schemaLoop schema schemaName rest
            (opts' @ [bodyOption propName (Property_Type prop)],
             AList.update propName (Property_Type prop) body))"

fun contentLoop ::
  "SwaggerSpec \<Rightarrow> (string \<times> MediaType) list \<Rightarrow> ToolOption list \<times> (string \<times> string) list
     \<Rightarrow> fault + ToolOption list \<times> (string \<times> string) list" where
  "contentLoop swaggerSpec [] st = Inr st"
| "contentLoop swaggerSpec ((contentType, mediaType) # rest) st =
     (case MediaType_Schema mediaType of
        None \<Rightarrow> Inl NilPointerDereference
      | Some schema \<Rightarrow>
          (case Spec_Components swaggerSpec of
             None \<Rightarrow> Inl NilPointerDereference
           | Some components \<Rightarrow>
               (case map_of (Schemas components)
                       (ExtractSchemaName (SchemaRef_Ref schema) (SchemaRef_Type schema)) of
                  Some definition \<Rightarrow>
                    (case schemaLoop schema
                            (ExtractSchemaName (SchemaRef_Ref schema) (SchemaRef_Type schema))
                            (Definition_Properties definition) st of
                       Inl e \<Rightarrow> Inl e
                     | Inr st' \<Rightarrow> contentLoop swaggerSpec rest st')
                | None \<Rightarrow> contentLoop swaggerSpec rest st)))"

text \<open>Lines 302 to 312: the usage text and the tool name.\<close>

definition usageText :: "Endpoint \<Rightarrow> string" where
  "usageText details =
     ''Use this tool only when the request exactly matches '' @ Summary details @ '' or ''
     @ Description details
     @ ''. If you dont have any of the required parameters then always ask user for it, ''
     @ ''*Dont fill any paramter on your own or keep it empty*. If there is [Error], ''
     @ ''only state that error in your reponse and stop the reponse there itself. ''
     @ ''*Do not ever maintain records in your memory for eg list of users or orders*''"

definition mkToolName :: "string \<Rightarrow> string \<Rightarrow> string" where
  "mkToolName method path =
     (let pathWithoutDot = ReplaceAll path (CHR ''/'') ''_'';
          name = method @ ''_''
                 @ ReplaceAll (ReplaceAll pathWithoutDot (CHR ''}'') []) (CHR ''{'') []
      in if length name \<ge> 40 then take 40 name else name)"

text \<open>The body of the loop over the methods of a path (lines 154 to 318).\<close>

definition deriveTool ::
  "SwaggerSpec \<Rightarrow> ApiConfig \<Rightarrow> string \<Rightarrow> string \<Rightarrow> Endpoint \<Rightarrow> fault + ToolDescriptor" where
  "deriveTool swaggerSpec apiCfg path method details =
     (case bodyParamLoop swaggerSpec (Parameters details)
             (map paramOption (paramsIn ''header'' (Parameters details))
              @ map paramOption (paramsIn ''query'' (Parameters details))
              @ map paramOption (paramsIn ''path'' (Parameters details)), []) of
        Inl e \<Rightarrow> Inl e
      | Inr st \<Rightarrow>
          (case (case Endpoint_RequestBody details of
                   None \<Rightarrow> Inr st
                 | Some body \<Rightarrow> contentLoop swaggerSpec (Content body) st) of
             Inl e \<Rightarrow> Inl e
           | Inr (opts, bodyFields) \<Rightarrow>
               Inr \<lparr>Tool_Name = mkToolName method path,
                    Tool_Options = opts @ [WithDescription (usageText details)],
                    Tool_reqPathParam = map Name (paramsIn ''path'' (Parameters details)),
                    Tool_reqQueryParam = map Name (paramsIn ''query'' (Parameters details)),
                    Tool_reqURL = reqURL_of swaggerSpec apiCfg path,
                    Tool_reqBody = bodyFields,
                    Tool_reqMethod = method,
                    Tool_reqHeader = map Name (paramsIn ''header'' (Parameters details))\<rparr>))"

fun methodsLoop ::
  "'r lib \<Rightarrow> SwaggerSpec \<Rightarrow> ApiConfig \<Rightarrow> string list \<Rightarrow> string list \<Rightarrow> string
     \<Rightarrow> (string \<times> Endpoint) list \<Rightarrow> fault + ToolDescriptor list" where
  "methodsLoop l swaggerSpec apiCfg inc exc path [] = Inr []"
| "methodsLoop l swaggerSpec apiCfg inc exc path ((method, details) # rest) =
     (if \<not> shouldIncludeMethod l method inc exc then
        methodsLoop l swaggerSpec apiCfg inc exc path rest
      else
        (case deriveTool swaggerSpec apiCfg path method details of
           Inl e \<Rightarrow> Inl e
         | Inr tool \<Rightarrow>
             (case methodsLoop l swaggerSpec apiCfg inc exc path rest of
                Inl e \<Rightarrow> Inl e
              | Inr tools \<Rightarrow> Inr (tool # tools))))"

fun pathsLoop ::
  "'r lib \<Rightarrow> SwaggerSpec \<Rightarrow> ApiConfig \<Rightarrow> 'r list \<Rightarrow> 'r list \<Rightarrow> string list \<Rightarrow> string list
     \<Rightarrow> (string \<times> (string \<times> Endpoint) list) list \<Rightarrow> fault + ToolDescriptor list" where
  "pathsLoop l swaggerSpec apiCfg incR excR inc exc [] = Inr []"
| "pathsLoop l swaggerSpec apiCfg incR excR inc exc ((path, methods) # rest) =
     (if \<not> shouldIncludePath l path incR excR then
        pathsLoop l swaggerSpec apiCfg incR excR inc exc rest
      else
        (case methodsLoop l swaggerSpec apiCfg inc exc path methods of
           Inl e \<Rightarrow> Inl e
         | Inr tools \<Rightarrow>
             (case pathsLoop l swaggerSpec apiCfg incR excR inc exc rest of
                Inl e \<Rightarrow> Inl e
              | Inr others \<Rightarrow> Inr (tools @ others))))"

definition methodList :: "string \<Rightarrow> string list" where
  "methodList methods =
     (if length (TrimSpace methods) > 0 then Split methods (CHR '','') else [])"

definition LoadSwaggerServer ::
  "'r lib \<Rightarrow> SwaggerSpec \<Rightarrow> ApiConfig \<Rightarrow> fault + ToolDescriptor list" where
  "LoadSwaggerServer l swaggerSpec apiCfg =
     pathsLoop l swaggerSpec apiCfg
       (compileRegexes l (IncludePaths apiCfg)) (compileRegexes l (ExcludePaths apiCfg))
       (methodList (IncludeMethods apiCfg)) (methodList (ExcludeMethods apiCfg))
       (Paths swaggerSpec)"

section \<open>Request security (setRequestSecurity)\<close>

text \<open>
  The loop body over the comma-separated parts of the API-key credential. Its state is
  the request (header entries are set at once), the map \<^verbatim>\<open>queryValues\<close> and
  the list \<^verbatim>\<open>cookieValues\<close>.
\<close>

definition apiKeyPart ::
  "'r lib \<Rightarrow> Request \<times> (string \<times> string) list \<times> (string \<times> string) list \<Rightarrow> string
     \<Rightarrow> Request \<times> (string \<times> string) list \<times> (string \<times> string) list" where
  "apiKeyPart l st part0 =
     (case st of (req, queryValues, cookieValues) \<Rightarrow>
       (let part = TrimSpace part0;
            colonIdx = Index part (CHR '':'');
            eqIdx = Index part (CHR ''='')
        in if part = [] then st
           else if colonIdx = - 1 \<or> eqIdx = - 1 \<or> eqIdx < colonIdx + 2 then st
           else
             (let passAs = ToLower l (TrimSpace (take (nat colonIdx) part));
                  name = TrimSpace (take (nat eqIdx - nat (colonIdx + 1))
                                      (drop (nat (colonIdx + 1)) part));
                  val = TrimSpace (drop (nat (eqIdx + 1)) part)
              in if passAs = ''header'' then
                   (req\<lparr>Header := Header_Set l (Header req) name val\<rparr>, queryValues, cookieValues)
                 else if passAs = ''query'' then
                   (req, AList.update name val queryValues, cookieValues)
                 else if passAs = ''cookie'' then
                   (req, queryValues, cookieValues @ [(name, val)])
                 else st)))"

definition addQuery :: "'r lib \<Rightarrow> Request \<Rightarrow> (string \<times> string) list \<Rightarrow> Request" where
  "addQuery l req queryValues =
     (if length queryValues > 0 then
        (case url_Parse l (url_String l (Request_URL req)) of
           Inl e \<Rightarrow> req
         | Inr u \<Rightarrow>
             req\<lparr>Request_URL :=
                   u\<lparr>RawQuery :=
                       Values_Encode
                         (foldl (\<lambda>q (k, v). Values_Set q k v)
                            (url_ParseQuery l (RawQuery u)) queryValues)\<rparr>\<rparr>)
      else req)"

definition setRequestSecurity ::
  "'r lib \<Rightarrow> Request \<Rightarrow> string \<Rightarrow> string \<Rightarrow> string \<Rightarrow> string \<Rightarrow> Request" where
  "setRequestSecurity l req security basicAuth apiKeyAuth bearerAuth =
     (let securityType = TrimSpace security;
          req1 = (if securityType = ''basic'' \<and> basicAuth \<noteq> [] then
                    req\<lparr>Header := Header_Set l (Header req) ''Authorization''
                                     (''Basic '' @ base64_EncodeToString l basicAuth)\<rparr>
                  else req);
          req2 = (if securityType = ''bearer'' \<and> bearerAuth \<noteq> [] then
                    req1\<lparr>Header := Header_Set l (Header req1) ''Authorization''
                                      (''Bearer '' @ bearerAuth)\<rparr>
                  else req1);
          st = (if securityType = ''apiKey'' \<and> apiKeyAuth \<noteq> [] then
                  foldl (apiKeyPart l) (req2, [], []) (Split apiKeyAuth (CHR '',''))
                else (req2, [], []))
      in case st of (req3, queryValues, cookieValues) \<Rightarrow>
           foldl (\<lambda>r (name, val). AddCookie l r name val)
             (addQuery l req3 queryValues) cookieValues)"

section \<open>The tool handler (CreateMCPToolHandler)\<close>

text \<open>
  A handler returns a tool result and an error; the model adds the requests handed to
  the HTTP client, in order, so that "no outbound call" is the empty list.
  \<^verbatim>\<open>mcp.NewToolResultError\<close> and \<^verbatim>\<open>mcp.NewToolResultText\<close> both build a text
  result; the first marks it as an error.
\<close>

datatype CallToolResult =
    NewToolResultText string
  | NewToolResultError string

record HandlerReturn =
  toolResult :: CallToolResult
  handlerError :: "string option"
  outbound :: "Request list"

definition failWith :: "string \<Rightarrow> HandlerReturn" where
  "failWith msg = \<lparr>toolResult = NewToolResultError msg, handlerError = None, outbound = []\<rparr>"

text \<open>The type assertion \<^verbatim>\<open>request.Params.Arguments[name].(string)\<close>.\<close>

definition argString :: "(string \<rightharpoonup> json) \<Rightarrow> string \<Rightarrow> string option" where
  "argString arguments name = (case arguments name of Some (JString s) \<Rightarrow> Some s | _ \<Rightarrow> None)"

fun pathLoop :: "(string \<rightharpoonup> json) \<Rightarrow> string list \<Rightarrow> string \<Rightarrow> string + string" where
  "pathLoop arguments [] currentReqURL = Inr currentReqURL"
| "pathLoop arguments (paramName # rest) currentReqURL =
     (case argString arguments paramName of
        None \<Rightarrow> Inl (''[Error] missing or invalid Path Parameter: '' @ paramName)
      | Some param \<Rightarrow>
          pathLoop arguments rest
            (Replace1 currentReqURL (''{'' @ paramName @ ''}'') param))"

fun queryLoop :: "(string \<rightharpoonup> json) \<Rightarrow> string list \<Rightarrow> Values \<Rightarrow> string + Values" where
  "queryLoop arguments [] q = Inr q"
| "queryLoop arguments (name # rest) q =
     (case argString arguments name of
        None \<Rightarrow> Inl (''[Error] missing or invalid Query Parameter: '' @ name)
      | Some v \<Rightarrow> queryLoop arguments rest (Values_Set q name v))"

definition queryStage ::
  "'r lib \<Rightarrow> (string \<rightharpoonup> json) \<Rightarrow> string list \<Rightarrow> string \<Rightarrow> string + string" where
  "queryStage l arguments reqQueryParam currentReqURL =
     (if length reqQueryParam > 0 then
        (case url_Parse l currentReqURL of
           Inl e \<Rightarrow> Inl (''[Error] failed to parse URL: '' @ e)
         | Inr u \<Rightarrow>
             (case queryLoop arguments reqQueryParam (url_ParseQuery l (RawQuery u)) of
                Inl msg \<Rightarrow> Inl msg
              | Inr q \<Rightarrow> Inr (url_String l (u\<lparr>RawQuery := Values_Encode q\<rparr>))))
      else Inr currentReqURL)"

text \<open>The \<^verbatim>\<open>switch paramType\<close> of the body loop (lines 429 to 470).\<close>

definition coerce :: "'r lib \<Rightarrow> string \<Rightarrow> string \<Rightarrow> string \<Rightarrow> string + json" where
  "coerce l paramName paramType paramStr =
     (if paramType = ''string'' then Inr (JString paramStr)
      else if paramType = ''int'' \<or> paramType = ''integer'' then
        (case Atoi paramStr of
           None \<Rightarrow> Inl (''[Error] invalid type for parameter '' @ paramName @ '', expected int'')
         | Some intValue \<Rightarrow> Inr (JInt intValue))
      else if paramType = ''float'' then
        (case strconv_ParseFloat l paramStr of
           None \<Rightarrow> Inl (''[Error] invalid type for parameter '' @ paramName @ '', expected float'')
         | Some floatValue \<Rightarrow> Inr (JFloat floatValue))
      else if paramType = ''bool'' \<or> paramType = ''boolean'' then
        (case ParseBool paramStr of
           None \<Rightarrow> Inl (''[Error] invalid type for parameter '' @ paramName @ '', expected bool'')
         | Some boolValue \<Rightarrow> Inr (JBool boolValue))
      else if paramType = ''array'' then
        (case json_UnmarshalArray l paramStr of
           None \<Rightarrow> Inl (''[Error] invalid type for parameter '' @ paramName @ '', expected array'')
         | Some arrayValue \<Rightarrow> Inr arrayValue)
      else if paramType = ''object'' then
        (case json_UnmarshalObject l paramStr of
           None \<Rightarrow> Inl (''[Error] invalid type for parameter '' @ paramName @ '', expected object'')
         | Some objectValue \<Rightarrow> Inr objectValue)
      else Inl (''[Error] unsupported parameter type: '' @ paramType @ '' for '' @ paramName))"

text \<open>
  The loop over the body field map (lines 422 to 472). The list is the map's entries in
  the order this call's \<^verbatim>\<open>range\<close> visits them.
\<close>

fun bodyLoop ::
  "'r lib \<Rightarrow> (string \<rightharpoonup> json) \<Rightarrow> (string \<times> string) list \<Rightarrow> (string \<rightharpoonup> json)
     \<Rightarrow> string + (string \<rightharpoonup> json)" where
  "bodyLoop l arguments [] reqBodyData = Inr reqBodyData"
| "bodyLoop l arguments ((paramName, paramType) # rest) reqBodyData =
     (case argString arguments paramName of
        None \<Rightarrow> Inl (''[Error] missing Body Parameter: '' @ paramName)
      | Some paramStr \<Rightarrow>
          (case coerce l paramName paramType paramStr of
             Inl msg \<Rightarrow> Inl msg
           | Inr v \<Rightarrow> bodyLoop l arguments rest (reqBodyData(paramName \<mapsto> v))))"

fun headerLoop ::
  "'r lib \<Rightarrow> (string \<rightharpoonup> json) \<Rightarrow> string list \<Rightarrow> Request \<Rightarrow> string + Request" where
  "headerLoop l arguments [] req = Inr req"
| "headerLoop l arguments (headerName # rest) req =
     (case argString arguments headerName of
        None \<Rightarrow> Inl (''[Error] missing or invalid Header: '' @ headerName)
      | Some headerValue \<Rightarrow>
          headerLoop l arguments rest
            (req\<lparr>Header := Header_Add l (Header req) headerName headerValue\<rparr>))"

text \<open>Lines 497 to 508: the static headers \<^verbatim>\<open>name1=value1,name2=value2\<close>.\<close>

definition customHeader :: "'r lib \<Rightarrow> Request \<Rightarrow> string \<Rightarrow> Request" where
  "customHeader l req pair0 =
     (let pair = TrimSpace pair0
      in if pair = [] then req
         else (case SplitN2 pair (CHR ''='') of
                 [k, v] \<Rightarrow>
                   (if TrimSpace k \<noteq> [] then
                      req\<lparr>Header := Header_Add l (Header req) (TrimSpace k) (TrimSpace v)\<rparr>
                    else req)
               | _ \<Rightarrow> req))"

definition customHeaders :: "'r lib \<Rightarrow> Request \<Rightarrow> string \<Rightarrow> Request" where
  "customHeaders l req headers =
     (if headers \<noteq> [] then foldl (customHeader l) req (Split headers (CHR '','')) else req)"

text \<open>
  Lines 511 to 518: the headers forwarded from the SSE request, when the context
  carries them.
\<close>

definition sseHeaders :: "'r lib \<Rightarrow> Request \<Rightarrow> (string \<times> string) list option \<Rightarrow> Request" where
  "sseHeaders l req ctx =
     (case ctx of
        None \<Rightarrow> req
      | Some hs \<Rightarrow> foldl (\<lambda>r (k, v). r\<lparr>Header := Header_Set l (Header r) k v\<rparr>) req hs)"

text \<open>Lines 491 to 533, from the finished request to the result.\<close>

definition dispatch ::
  "'r lib \<Rightarrow> ApiConfig \<Rightarrow> (string \<times> string) list option \<Rightarrow> Request \<Rightarrow> HandlerReturn" where
  "dispatch l apiCfg ctx req0 =
     (let req1 = req0\<lparr>Header := Header_Set l (Header req0) ''Content-Type'' ''application/json''\<rparr>;
          req2 = setRequestSecurity l req1 (Security apiCfg) (BasicAuth apiCfg)
                   (ApiKeyAuth apiCfg) (BearerAuth apiCfg);
          req3 = customHeaders l req2 (Headers apiCfg);
          req = sseHeaders l req3 ctx
      in case client_Do l req of
           Inl e \<Rightarrow>
             \<lparr>toolResult = NewToolResultError (''[Error] failed to make HTTP request: '' @ e),
              handlerError = None, outbound = [req]\<rparr>
         | Inr (Inl e) \<Rightarrow>
             \<lparr>toolResult = NewToolResultError (''[Error] failed to read HTTP Response: '' @ e),
              handlerError = None, outbound = [req]\<rparr>
         | Inr (Inr body) \<Rightarrow>
             \<lparr>toolResult = NewToolResultText body, handlerError = None, outbound = [req]\<rparr>)"

definition CreateMCPToolHandler ::
  "'r lib \<Rightarrow> string list \<Rightarrow> string list \<Rightarrow> string \<Rightarrow> (string \<times> string) list \<Rightarrow> string
     \<Rightarrow> string list \<Rightarrow> ApiConfig \<Rightarrow> (string \<times> string) list option \<Rightarrow> (string \<rightharpoonup> json)
     \<Rightarrow> HandlerReturn" where
  "CreateMCPToolHandler l reqPathParam reqQueryParam reqURL reqBody reqMethod reqHeader apiCfg
     ctx arguments =
     (case pathLoop arguments reqPathParam reqURL of
        Inl msg \<Rightarrow> failWith msg
      | Inr url1 \<Rightarrow>
     (case queryStage l arguments reqQueryParam url1 of
        Inl msg \<Rightarrow> failWith msg
      | Inr currentReqURL \<Rightarrow>
     (case bodyLoop l arguments reqBody Map.empty of
        Inl msg \<Rightarrow> failWith msg
      | Inr reqBodyData \<Rightarrow>
     (case json_Marshal l reqBodyData of
        Inl e \<Rightarrow> failWith (''[Error] failed to marshal request body: '' @ e)
      | Inr reqBodyDataBytes \<Rightarrow>
     (case http_NewRequest l (ToUpper l reqMethod) currentReqURL of
        Inl e \<Rightarrow> failWith (''[Error] failed to create HTTP request: '' @ e)
      | Inr req \<Rightarrow>
     (case headerLoop l arguments reqHeader (req\<lparr>Body := reqBodyDataBytes\<rparr>) of
        Inl msg \<Rightarrow> failWith msg
      | Inr req' \<Rightarrow> dispatch l apiCfg ctx req'))))))"

section \<open>Retained operations\<close>


section \<open>Resolved body properties\<close>

text \<open>
  The properties that the body parameters and the request body's content entries of an
  operation resolve to, in the order in which the derivation visits them, and the map
  that assigning them one after the other builds. They state what the body field
  map of a derived tool is.
\<close>

definition definitionOf :: "(string \<times> Definition) list \<Rightarrow> string \<Rightarrow> (string \<times> Property) list" where
  "definitionOf table schemaName =
     (case map_of table schemaName of
        Some definition \<Rightarrow> Definition_Properties definition
      | None \<Rightarrow> [])"

definition resolvedParam :: "SwaggerSpec \<Rightarrow> Parameter \<Rightarrow> (string \<times> Property) list" where
  "resolvedParam swaggerSpec param =
     (case Parameter_Schema param of
        Some schema \<Rightarrow>
          definitionOf (Definitions swaggerSpec)
            (ExtractSchemaName (SchemaRef_Ref schema) (Parameter_Type param))
      | None \<Rightarrow> [])"

definition resolvedMedia :: "SwaggerSpec \<Rightarrow> MediaType \<Rightarrow> (string \<times> Property) list" where
  "resolvedMedia swaggerSpec mediaType =
     (case (MediaType_Schema mediaType, Spec_Components swaggerSpec) of
        (Some schema, Some components) \<Rightarrow>
          definitionOf (Schemas components)
            (ExtractSchemaName (SchemaRef_Ref schema) (SchemaRef_Type schema))
      | _ \<Rightarrow> [])"

definition resolvedProps :: "SwaggerSpec \<Rightarrow> Endpoint \<Rightarrow> (string \<times> Property) list" where
  "resolvedProps swaggerSpec details =
     concat (map (resolvedParam swaggerSpec) (paramsIn ''body'' (Parameters details)))
     @ (case Endpoint_RequestBody details of
          None \<Rightarrow> []
        | Some body \<Rightarrow> concat (map (\<lambda>(contentType, mediaType). resolvedMedia swaggerSpec mediaType)
                                  (Content body)))"

definition assign :: "(string \<times> string) list \<Rightarrow> (string \<times> Property) list \<Rightarrow> (string \<times> string) list" where
  "assign body props = foldl (\<lambda>b (propName, prop). AList.update propName (Property_Type prop) b) body props"

section \<open>Example data\<close>

text \<open>
  A small library instance for the examples: text that is not ASCII has no letters, a
  pattern matches the paths it is a prefix of, URLs have no query, header names are already canonical, and the server answers
  \<^verbatim>\<open>ok\<close>. Then an empty configuration, a Swagger 2.0 document and an OpenAPI 3.0
  document.
\<close>

definition lib0 :: "string lib" where
  "lib0 = \<lparr>unicode_ToLower = (\<lambda>s. s),
           unicode_ToUpper = (\<lambda>s. s),
           unicode_EqualFold = (\<lambda>s t. s = t),
           regexp_Compile = Some,
           regexp_MatchString = (\<lambda>r p. prefix r p),
           strconv_ParseFloat = (\<lambda>s. None),
           json_UnmarshalArray = (\<lambda>s. if s = ''[]'' then Some (JArray []) else None),
           json_UnmarshalObject = (\<lambda>s. if s = ''{}'' then Some (JObject []) else None),
           json_Marshal = (\<lambda>m. Inr ''{}''),
           url_Parse = (\<lambda>s. Inr \<lparr>URL_Rest = s, RawQuery = []\<rparr>),
           url_String = (\<lambda>u. URL_Rest u @ (if RawQuery u = [] then [] else CHR ''?'' # RawQuery u)),
           url_ParseQuery = (\<lambda>q. []),
           http_NewRequest = (\<lambda>m u. Inr \<lparr>Method = m, Request_URL = \<lparr>URL_Rest = u, RawQuery = []\<rparr>,
                                         Header = [], Body = []\<rparr>),
           http_CanonicalHeaderKey = (\<lambda>k. k),
           http_cookieString = (\<lambda>n v. n @ ''='' @ v),
           base64_EncodeToString = (\<lambda>s. s),
           client_Do = (\<lambda>r. Inr (Inr ''ok''))\<rparr>"

definition apiCfg0 :: ApiConfig where
  "apiCfg0 = \<lparr>BaseUrl = [], IncludePaths = [], ExcludePaths = [], IncludeMethods = [],
     ExcludeMethods = [], Security = [], BasicAuth = [], ApiKeyAuth = [], BearerAuth = [],
     Headers = []\<rparr>"

definition petStore :: SwaggerSpec where
  "petStore = \<lparr>Host = ''api.example.com'', BasePath = ''/v1'', OpenAPI = [], Servers = [],
     Spec_Components = None,
     Paths = [(''/pets/{id}'', [(''get'', \<lparr>Summary = ''Find a pet'', Description = ''One pet by id'',
                  Parameters = [\<lparr>Name = ''id'', In = ''path'', Required = True,
                                 Parameter_Type = ''string'', Parameter_Schema = None\<rparr>],
                  Endpoint_RequestBody = None\<rparr>)]),
              (''/pets'', [(''post'', \<lparr>Summary = ''Add a pet'', Description = ''Stores a pet'',
                  Parameters = [\<lparr>Name = ''body'', In = ''body'', Required = True,
                                 Parameter_Type = [],
                                 Parameter_Schema = Some (SchemaRef [] [] None ''#/definitions/Pet'')\<rparr>],
                  Endpoint_RequestBody = None\<rparr>)])],
     Definitions = [(''Pet'', \<lparr>Definition_Properties =
                       [(''name'', \<lparr>Property_Type = ''string''\<rparr>),
                        (''age'', \<lparr>Property_Type = ''integer''\<rparr>)]\<rparr>)]\<rparr>"

definition orderSchema :: SchemaRef where
  "orderSchema =
     SchemaRef [] [(''Order'', Some (SchemaRef ''array'' []
                      (Some (SchemaRef ''object''
                               [(''sku'', Some (SchemaRef ''string'' [] None [])),
                                (''qty'', Some (SchemaRef ''integer'' [] None []))] None [])) []))]
       None ''#/components/schemas/Order''"

definition placeOrder :: Endpoint where
  "placeOrder = \<lparr>Summary = ''Place an order'', Description = ''Creates an order'',
     Parameters = [],
     Endpoint_RequestBody =
       Some \<lparr>Content = [(''application/json'', \<lparr>MediaType_Schema = Some orderSchema\<rparr>)]\<rparr>\<rparr>"

definition orderApi :: SwaggerSpec where
  "orderApi = \<lparr>Host = [], BasePath = [], OpenAPI = ''3.0.0'',
     Servers = [\<lparr>Server_URL = ''http://x/''\<rparr>],
     Spec_Components = Some \<lparr>Schemas = [(''Order'', \<lparr>Definition_Properties =
                       [(''lines'', \<lparr>Property_Type = ''array''\<rparr>),
                        (''note'', \<lparr>Property_Type = ''string''\<rparr>)]\<rparr>)]\<rparr>,
     Paths = [(''/orders'', [(''post'', placeOrder)])],
     Definitions = []\<rparr>"

text \<open>
  The same document with an order that has a top-level property \<^verbatim>\<open>sku\<close>, the name
  of one of the item properties.
\<close>

definition clashApi :: SwaggerSpec where
  "clashApi = orderApi\<lparr>Spec_Components := Some \<lparr>Schemas = [(''Order'', \<lparr>Definition_Properties =
                       [(''lines'', \<lparr>Property_Type = ''array''\<rparr>),
                        (''sku'', \<lparr>Property_Type = ''integer''\<rparr>)]\<rparr>)]\<rparr>\<rparr>"

text \<open>
  Three documents that a JSON decoder produces from well-formed input: a body parameter
  without a \<^verbatim>\<open>schema\<close> object, a request body whose media type has no
  \<^verbatim>\<open>schema\<close>, and a request body in a document without \<^verbatim>\<open>components\<close>.
\<close>

definition noParamSchema :: SwaggerSpec where
  "noParamSchema = petStore\<lparr>Paths :=
     [(''/pets'', [(''post'', \<lparr>Summary = ''Add a pet'', Description = ''Stores a pet'',
         Parameters = [\<lparr>Name = ''body'', In = ''body'', Required = True,
                        Parameter_Type = [], Parameter_Schema = None\<rparr>],
         Endpoint_RequestBody = None\<rparr>)])]\<rparr>"

definition noMediaSchema :: SwaggerSpec where
  "noMediaSchema = orderApi\<lparr>Paths :=
     [(''/orders'', [(''post'', placeOrder\<lparr>Endpoint_RequestBody :=
         Some \<lparr>Content = [(''application/json'', \<lparr>MediaType_Schema = None\<rparr>)]\<rparr>\<rparr>)])]\<rparr>"

definition noComponents :: SwaggerSpec where
  "noComponents = orderApi\<lparr>Spec_Components := None\<rparr>"

text \<open>The arguments of a call that adds a pet.\<close>

definition petArgs :: "string \<rightharpoonup> json" where
  "petArgs = [''name'' \<mapsto> JString ''Rex'', ''age'' \<mapsto> JString ''42'']"

text \<open>A request for the list of pets.\<close>

definition getPets :: Request where
  "getPets = \<lparr>Method = ''GET'',
               Request_URL = \<lparr>URL_Rest = ''https://api.example.com/v1/pets'', RawQuery = []\<rparr>,
               Header = [], Body = []\<rparr>"

section \<open>Properties of the string functions\<close>

lemma Split_not_Nil: "Split s sep \<noteq> []"
  by (induction s) (simp_all split: list.split)

lemma Split_whole: "sep \<notin> set s \<Longrightarrow> Split s sep = [s]"
  by (induction s) auto

lemma Split_two: "sep \<in> set s \<Longrightarrow> tl (Split s sep) \<noteq> []"
  by (induction s) (auto simp: Split_not_Nil split: list.split)

lemma last_Split_Cons:
  "last (Split (c # cs) sep) =
     (if tl (Split cs sep) = [] \<and> c \<noteq> sep then c # hd (Split cs sep)
      else last (Split cs sep))"
proof -
  obtain w ws where X: "Split cs sep = w # ws"
    using Split_not_Nil [of cs sep] by (cases "Split cs sep") auto
  show ?thesis by (simp add: X)
qed

lemma last_Split_no_sep: "sep \<notin> set (last (Split s sep))"
proof (induction s)
  case Nil
  show ?case by simp
next
  case (Cons c cs)
  obtain w ws where X: "Split cs sep = w # ws"
    using Split_not_Nil [of cs sep] by (cases "Split cs sep") auto
  from Cons X show ?case by (cases ws) auto
qed

lemma last_Split_suffix:
  "sep \<in> set s \<Longrightarrow> \<exists>pre. s = pre @ sep # last (Split s sep)"
proof (induction s)
  case Nil
  then show ?case by simp
next
  case (Cons c cs)
  show ?case
  proof (cases "sep \<in> set cs")
    case True
    then obtain pre where pre: "cs = pre @ sep # last (Split cs sep)"
      using Cons.IH by blast
    from True have "tl (Split cs sep) \<noteq> []" by (rule Split_two)
    then have "last (Split (c # cs) sep) = last (Split cs sep)"
      by (simp del: Split.simps add: last_Split_Cons)
    with pre have "c # cs = (c # pre) @ sep # last (Split (c # cs) sep)" by simp
    then show ?thesis by blast
  next
    case False
    with Cons.prems have c: "c = sep" by simp
    from False have "Split cs sep = [cs]" by (rule Split_whole)
    with c have "last (Split (c # cs) sep) = cs" by simp
    with c have "c # cs = [] @ sep # last (Split (c # cs) sep)" by simp
    then show ?thesis by blast
  qed
qed

lemma TrimSuffix_slash:
  "TrimSuffix s ''/'' = (if s \<noteq> [] \<and> last s = CHR ''/'' then butlast s else s)"
proof (cases s rule: rev_cases)
  case Nil
  then show ?thesis by (simp add: TrimSuffix_def HasSuffix_def)
next
  case (snoc ys y)
  then show ?thesis by (auto simp: TrimSuffix_def HasSuffix_def suffix_def)
qed

lemma TrimPrefix_slash:
  "TrimPrefix s ''/'' = (if s \<noteq> [] \<and> hd s = CHR ''/'' then tl s else s)"
  by (cases s) (auto simp: TrimPrefix_def HasPrefix_def)



lemma TrimSpace_Nil: "TrimSpace [] = []"
  by (simp add: TrimSpace_def)

section \<open>Properties of the filter and of the derivation\<close>

lemma compileRegexes_Nil: "compileRegexes l [] = []"
  by (simp add: compileRegexes_def TrimSpace_Nil)

lemma methodList_Nil: "methodList [] = []"
  by (simp add: methodList_def TrimSpace_Nil)

lemma keep_all_paths: "shouldIncludePath l path [] []"
  by (simp add: shouldIncludePath_def)

lemma keep_all_methods: "shouldIncludeMethod l method [] []"
  by (simp add: shouldIncludeMethod_def)


lemma deriveTool_fields:
  assumes "deriveTool swaggerSpec apiCfg path method details = Inr tool"
  shows "Tool_Name tool = mkToolName method path"
    and "Tool_reqURL tool = reqURL_of swaggerSpec apiCfg path"
    and "Tool_reqMethod tool = method"
    and "Tool_reqPathParam tool = map Name (paramsIn ''path'' (Parameters details))"
    and "Tool_reqQueryParam tool = map Name (paramsIn ''query'' (Parameters details))"
    and "Tool_reqHeader tool = map Name (paramsIn ''header'' (Parameters details))"
  using assms by (auto simp: deriveTool_def split: sum.splits option.splits prod.splits)






section \<open>The body field map and the declared inputs of a derived tool\<close>

lemma assign_Nil: "assign body [] = body"
  by (simp add: assign_def)

lemma assign_Cons:
  "assign body ((n, p) # props) = assign (AList.update n (Property_Type p) body) props"
  by (simp add: assign_def)

lemma assign_append: "assign body (xs @ ys) = assign (assign body xs) ys"
  by (simp add: assign_def)

lemma definitionLoop_assign:
  "snd (definitionLoop props (opts, body)) = assign body props"
  by (induction props arbitrary: opts body) (auto simp: assign_Nil assign_Cons)

lemma definitionLoop_opts:
  "fst (definitionLoop props (opts, body)) =
     opts @ map (\<lambda>(n, p). bodyOption n (Property_Type p)) props"
  by (induction props arbitrary: opts body) auto

lemma bodyParamLoop_assign:
  "bodyParamLoop swaggerSpec params (opts, body) = Inr (opts', body') \<Longrightarrow>
   body' = assign body (concat (map (resolvedParam swaggerSpec) (paramsIn ''body'' params)))"
proof (induction params arbitrary: opts body)
  case Nil
  then show ?case by (simp add: paramsIn_def assign_Nil)
next
  case (Cons param rest)
  show ?case
  proof (cases "In param = ''body''")
    case False
    with Cons show ?thesis by (simp add: paramsIn_def)
  next
    case True
    with Cons.prems obtain schema where sch: "Parameter_Schema param = Some schema"
      by (auto split: option.splits)
    let ?name = "ExtractSchemaName (SchemaRef_Ref schema) (Parameter_Type param)"
    show ?thesis
    proof (cases "map_of (Definitions swaggerSpec) ?name")
      case None
      with Cons.prems True sch
      have "bodyParamLoop swaggerSpec rest (opts, body) = Inr (opts', body')" by simp
      from Cons.IH [OF this] None True sch show ?thesis
        by (simp add: paramsIn_def resolvedParam_def definitionOf_def)
    next
      case (Some defn)
      obtain o1 b1 where st: "definitionLoop (Definition_Properties defn) (opts, body) = (o1, b1)"
        by (cases "definitionLoop (Definition_Properties defn) (opts, body)")
      then have b1: "b1 = assign body (Definition_Properties defn)"
        using definitionLoop_assign [of "Definition_Properties defn" opts body] by simp
      from Cons.prems True sch Some st
      have "bodyParamLoop swaggerSpec rest (o1, b1) = Inr (opts', body')" by simp
      from Cons.IH [OF this] b1 Some True sch show ?thesis
        by (simp add: paramsIn_def resolvedParam_def definitionOf_def assign_append)
    qed
  qed
qed

lemma schemaLoop_assign:
  "schemaLoop schema schemaName props (opts, body) = Inr (opts', body') \<Longrightarrow>
   body' = assign body props"
proof (induction props arbitrary: opts body)
  case Nil
  then show ?case by (simp add: assign_Nil)
next
  case (Cons np rest)
  obtain n p where np: "np = (n, p)" by (cases np)
  from Cons.prems np obtain o1 where
    "schemaLoop schema schemaName rest
       (o1 @ [bodyOption n (Property_Type p)], AList.update n (Property_Type p) body)
     = Inr (opts', body')"
    by (auto split: sum.splits)
  from Cons.IH [OF this] np show ?case by (simp add: assign_Cons)
qed

lemma contentLoop_assign:
  "contentLoop swaggerSpec content (opts, body) = Inr (opts', body') \<Longrightarrow>
   body' = assign body
     (concat (map (\<lambda>(contentType, mediaType). resolvedMedia swaggerSpec mediaType) content))"
proof (induction content arbitrary: opts body)
  case Nil
  then show ?case by (simp add: assign_Nil)
next
  case (Cons cm rest)
  obtain c mt where cm: "cm = (c, mt)" by (cases cm)
  from Cons.prems cm obtain schema components where
    sch: "MediaType_Schema mt = Some schema" and comps: "Spec_Components swaggerSpec = Some components"
    by (auto split: option.splits)
  let ?name = "ExtractSchemaName (SchemaRef_Ref schema) (SchemaRef_Type schema)"
  show ?case
  proof (cases "map_of (Schemas components) ?name")
    case None
    with Cons.prems cm sch comps
    have "contentLoop swaggerSpec rest (opts, body) = Inr (opts', body')" by simp
    from Cons.IH [OF this] None cm sch comps show ?thesis
      by (simp add: resolvedMedia_def definitionOf_def)
  next
    case (Some defn)
    with Cons.prems cm sch comps obtain o1 b1 where
      s1: "schemaLoop schema ?name (Definition_Properties defn) (opts, body) = Inr (o1, b1)"
      and r: "contentLoop swaggerSpec rest (o1, b1) = Inr (opts', body')"
      by (auto split: sum.splits)
    from schemaLoop_assign [OF s1] Cons.IH [OF r] Some cm sch comps show ?thesis
      by (simp add: resolvedMedia_def definitionOf_def assign_append)
  qed
qed

lemma deriveTool_reqBody:
  assumes "deriveTool swaggerSpec apiCfg path method details = Inr tool"
  shows "Tool_reqBody tool = assign [] (resolvedProps swaggerSpec details)"
proof -
  let ?opts = "map paramOption (paramsIn ''header'' (Parameters details))
              @ map paramOption (paramsIn ''query'' (Parameters details))
              @ map paramOption (paramsIn ''path'' (Parameters details))"
  from assms obtain o1 b1 where
    s1: "bodyParamLoop swaggerSpec (Parameters details) (?opts, []) = Inr (o1, b1)"
    by (auto simp: deriveTool_def split: sum.splits)
  from bodyParamLoop_assign [OF s1]
  have b1: "b1 = assign [] (concat (map (resolvedParam swaggerSpec)
      (paramsIn ''body'' (Parameters details))))" .
  show ?thesis
  proof (cases "Endpoint_RequestBody details")
    case None
    with assms s1 have "Tool_reqBody tool = b1"
      by (auto simp: deriveTool_def split: sum.splits)
    with b1 None show ?thesis by (simp add: resolvedProps_def)
  next
    case (Some body)
    with assms s1 obtain o2 b2 where
      s2: "contentLoop swaggerSpec (Content body) (o1, b1) = Inr (o2, b2)"
      and t: "Tool_reqBody tool = b2"
      by (auto simp: deriveTool_def split: sum.splits)
    from contentLoop_assign [OF s2] b1 t Some show ?thesis
      by (simp add: resolvedProps_def assign_append)
  qed
qed

lemma keys_assign: "fst ` set (assign body props) = fst ` set body \<union> fst ` set props"
proof (induction props arbitrary: body)
  case Nil
  then show ?case by (simp add: assign_Nil)
next
  case (Cons np props)
  obtain k p where np: "np = (k, p)" by (cases np)
  have "fst ` set (assign body (np # props)) =
      fst ` set (AList.update k (Property_Type p) body) \<union> fst ` set props"
    by (simp add: np assign_Cons Cons.IH)
  also have "\<dots> = fst ` set body \<union> fst ` set (np # props)"
    by (simp add: np dom_update)
  finally show ?case .
qed

lemma map_of_assign:
  "map_of (assign body props) n =
     (case map_of (rev props) n of
        Some p \<Rightarrow> Some (Property_Type p)
      | None \<Rightarrow> map_of body n)"
proof (induction props arbitrary: body)
  case Nil
  then show ?case by (simp add: assign_Nil)
next
  case (Cons np props)
  obtain k p where np: "np = (k, p)" by (cases np)
  show ?case
    by (simp add: np assign_Cons Cons.IH update_conv' map_add_def split: option.splits)
qed

lemma itemLoop_mono: "itemLoop items opts = Inr opts' \<Longrightarrow> set opts \<subseteq> set opts'"
proof (induction items arbitrary: opts)
  case Nil
  then show ?case by simp
next
  case (Cons np rest)
  obtain k p where np: "np = (k, p)" by (cases np)
  from Cons.prems np obtain q where
    r: "itemLoop rest (opts @ [itemOption k (SchemaRef_Type q)]) = Inr opts'"
    by (auto split: option.splits)
  from Cons.IH [OF r] show ?case by auto
qed

lemma itemLoop_member:
  "itemLoop items opts = Inr opts' \<Longrightarrow> (n, Some ip) \<in> set items \<Longrightarrow>
   itemOption n (SchemaRef_Type ip) \<in> set opts'"
proof (induction items arbitrary: opts)
  case Nil
  then show ?case by simp
next
  case (Cons np rest)
  obtain k p where np: "np = (k, p)" by (cases np)
  from Cons.prems(1) np obtain q where p: "p = Some q"
    and r: "itemLoop rest (opts @ [itemOption k (SchemaRef_Type q)]) = Inr opts'"
    by (auto split: option.splits)
  show ?case
  proof (cases "(n, Some ip) = (k, p)")
    case True
    with p have "itemOption n (SchemaRef_Type ip) \<in> set (opts @ [itemOption k (SchemaRef_Type q)])"
      by simp
    with itemLoop_mono [OF r] show ?thesis by blast
  next
    case False
    with Cons.prems(2) np have "(n, Some ip) \<in> set rest" by auto
    with Cons.IH r show ?thesis by blast
  qed
qed

lemma arrayItems_mono:
  "arrayItems schema schemaName prop opts = Inr opts' \<Longrightarrow> set opts \<subseteq> set opts'"
  by (auto simp: arrayItems_def split: if_splits option.splits dest: itemLoop_mono)

lemma arrayItems_member:
  assumes "arrayItems schema schemaName prop opts = Inr opts'"
    and "Property_Type prop = ''array''"
    and "map_of (SchemaRef_Properties schema) schemaName = Some (Some schemaProp)"
    and "SchemaRef_Items schemaProp = Some items"
    and "(n, Some ip) \<in> set (SchemaRef_Properties items)"
  shows "itemOption n (SchemaRef_Type ip) \<in> set opts'"
proof -
  from assms(1-4) have "itemLoop (SchemaRef_Properties items) opts = Inr opts'"
    by (simp add: arrayItems_def)
  then show ?thesis using assms(5) by (rule itemLoop_member)
qed

lemma schemaLoop_mono:
  "schemaLoop schema schemaName props (opts, body) = Inr (opts', body') \<Longrightarrow> set opts \<subseteq> set opts'"
proof (induction props arbitrary: opts body)
  case Nil
  then show ?case by simp
next
  case (Cons np rest)
  obtain k p where np: "np = (k, p)" by (cases np)
  from Cons.prems np obtain o1 where
    a: "arrayItems schema schemaName p opts = Inr o1"
    and r: "schemaLoop schema schemaName rest
       (o1 @ [bodyOption k (Property_Type p)], AList.update k (Property_Type p) body)
     = Inr (opts', body')"
    by (auto split: sum.splits)
  from arrayItems_mono [OF a] Cons.IH [OF r] show ?case by auto
qed

lemma schemaLoop_member:
  assumes "schemaLoop schema schemaName props (opts, body) = Inr (opts', body')"
    and "(propName, prop) \<in> set props"
    and "Property_Type prop = ''array''"
    and "map_of (SchemaRef_Properties schema) schemaName = Some (Some schemaProp)"
    and "SchemaRef_Items schemaProp = Some items"
    and "(n, Some ip) \<in> set (SchemaRef_Properties items)"
  shows "itemOption n (SchemaRef_Type ip) \<in> set opts'"
  using assms(1,2)
proof (induction props arbitrary: opts body)
  case Nil
  then show ?case by simp
next
  case (Cons np rest)
  obtain k p where np: "np = (k, p)" by (cases np)
  from Cons.prems(1) np obtain o1 where
    a: "arrayItems schema schemaName p opts = Inr o1"
    and r: "schemaLoop schema schemaName rest
       (o1 @ [bodyOption k (Property_Type p)], AList.update k (Property_Type p) body)
     = Inr (opts', body')"
    by (auto split: sum.splits)
  show ?case
  proof (cases "(propName, prop) = (k, p)")
    case True
    with a assms(3-6) have "itemOption n (SchemaRef_Type ip) \<in> set o1"
      using arrayItems_member [of schema schemaName "prop" opts o1 schemaProp items n ip] by simp
    with schemaLoop_mono [OF r] show ?thesis by auto
  next
    case False
    with Cons.prems(2) np have "(propName, prop) \<in> set rest" by auto
    with Cons.IH r show ?thesis by blast
  qed
qed

lemma contentLoop_mono:
  "contentLoop swaggerSpec content (opts, body) = Inr (opts', body') \<Longrightarrow> set opts \<subseteq> set opts'"
proof (induction content arbitrary: opts body)
  case Nil
  then show ?case by simp
next
  case (Cons cm rest)
  obtain c mt where cm: "cm = (c, mt)" by (cases cm)
  from Cons.prems cm obtain schema components where
    sch: "MediaType_Schema mt = Some schema" and comps: "Spec_Components swaggerSpec = Some components"
    by (auto split: option.splits)
  let ?name = "ExtractSchemaName (SchemaRef_Ref schema) (SchemaRef_Type schema)"
  show ?case
  proof (cases "map_of (Schemas components) ?name")
    case None
    with Cons.prems cm sch comps
    have "contentLoop swaggerSpec rest (opts, body) = Inr (opts', body')" by simp
    then show ?thesis by (rule Cons.IH)
  next
    case (Some defn)
    with Cons.prems cm sch comps obtain o1 b1 where
      s1: "schemaLoop schema ?name (Definition_Properties defn) (opts, body) = Inr (o1, b1)"
      and r: "contentLoop swaggerSpec rest (o1, b1) = Inr (opts', body')"
      by (auto split: sum.splits)
    from schemaLoop_mono [OF s1] Cons.IH [OF r] show ?thesis by auto
  qed
qed

lemma contentLoop_member:
  assumes "contentLoop swaggerSpec content (opts, body) = Inr (opts', body')"
    and "(contentType, mediaType) \<in> set content"
    and "MediaType_Schema mediaType = Some schema"
    and "Spec_Components swaggerSpec = Some components"
    and "map_of (Schemas components)
           (ExtractSchemaName (SchemaRef_Ref schema) (SchemaRef_Type schema)) = Some defn"
    and "(propName, prop) \<in> set (Definition_Properties defn)"
    and "Property_Type prop = ''array''"
    and "map_of (SchemaRef_Properties schema)
           (ExtractSchemaName (SchemaRef_Ref schema) (SchemaRef_Type schema)) = Some (Some schemaProp)"
    and "SchemaRef_Items schemaProp = Some items"
    and "(n, Some ip) \<in> set (SchemaRef_Properties items)"
  shows "itemOption n (SchemaRef_Type ip) \<in> set opts'"
  using assms(1,2)
proof (induction content arbitrary: opts body)
  case Nil
  then show ?case by simp
next
  case (Cons cm rest)
  obtain c mt where cm: "cm = (c, mt)" by (cases cm)
  from Cons.prems(1) cm obtain sch where
    sch: "MediaType_Schema mt = Some sch"
    by (auto split: option.splits)
  let ?name = "ExtractSchemaName (SchemaRef_Ref sch) (SchemaRef_Type sch)"
  have step: "\<exists>o1 b1. set opts \<subseteq> set o1
      \<and> contentLoop swaggerSpec rest (o1, b1) = Inr (opts', body')
      \<and> (mt = mediaType \<longrightarrow> itemOption n (SchemaRef_Type ip) \<in> set o1)"
  proof (cases "map_of (Schemas components) ?name")
    case None
    with Cons.prems(1) cm sch assms(4)
    have "contentLoop swaggerSpec rest (opts, body) = Inr (opts', body')" by simp
    moreover from None sch assms(3,5) have "mt \<noteq> mediaType" by auto
    ultimately show ?thesis by blast
  next
    case (Some d)
    with Cons.prems(1) cm sch assms(4) obtain o1 b1 where
      s1: "schemaLoop sch ?name (Definition_Properties d) (opts, body) = Inr (o1, b1)"
      and r: "contentLoop swaggerSpec rest (o1, b1) = Inr (opts', body')"
      by (auto split: sum.splits)
    have "mt = mediaType \<longrightarrow> itemOption n (SchemaRef_Type ip) \<in> set o1"
    proof
      assume eq: "mt = mediaType"
      with sch assms(3) have "sch = schema" by simp
      with Some assms(5) have "d = defn" by simp
      with s1 \<open>sch = schema\<close> assms(6-10) show "itemOption n (SchemaRef_Type ip) \<in> set o1"
        using schemaLoop_member [of schema _ "Definition_Properties defn" opts body o1 b1
            propName "prop" schemaProp items n ip]
        by simp
    qed
    with schemaLoop_mono [OF s1] r show ?thesis by blast
  qed
  then obtain o1 b1 where m: "set opts \<subseteq> set o1"
    and r: "contentLoop swaggerSpec rest (o1, b1) = Inr (opts', body')"
    and here: "mt = mediaType \<longrightarrow> itemOption n (SchemaRef_Type ip) \<in> set o1"
    by blast
  show ?case
  proof (cases "mt = mediaType")
    case True
    with here contentLoop_mono [OF r] show ?thesis by auto
  next
    case False
    with Cons.prems(2) cm have "(contentType, mediaType) \<in> set rest" by auto
    with Cons.IH r show ?thesis by blast
  qed
qed

lemma deriveTool_item_option:
  assumes "deriveTool swaggerSpec apiCfg path method details = Inr tool"
    and "Endpoint_RequestBody details = Some body"
    and "(contentType, mediaType) \<in> set (Content body)"
    and "MediaType_Schema mediaType = Some schema"
    and "Spec_Components swaggerSpec = Some components"
    and "map_of (Schemas components)
           (ExtractSchemaName (SchemaRef_Ref schema) (SchemaRef_Type schema)) = Some defn"
    and "(propName, prop) \<in> set (Definition_Properties defn)"
    and "Property_Type prop = ''array''"
    and "map_of (SchemaRef_Properties schema)
           (ExtractSchemaName (SchemaRef_Ref schema) (SchemaRef_Type schema)) = Some (Some schemaProp)"
    and "SchemaRef_Items schemaProp = Some items"
    and "(n, Some ip) \<in> set (SchemaRef_Properties items)"
  shows "itemOption n (SchemaRef_Type ip) \<in> set (Tool_Options tool)"
proof -
  from assms(1,2) obtain o1 b1 o2 b2 where
    s2: "contentLoop swaggerSpec (Content body) (o1, b1) = Inr (o2, b2)"
    and t: "Tool_Options tool = o2 @ [WithDescription (usageText details)]"
    by (auto simp: deriveTool_def split: sum.splits)
  from contentLoop_member [OF s2 assms(3-11)] t show ?thesis by simp
qed

lemma load_apiCfg0:
  "LoadSwaggerServer l swaggerSpec apiCfg0 =
     pathsLoop l swaggerSpec apiCfg0 [] [] [] [] (Paths swaggerSpec)"
  by (simp add: LoadSwaggerServer_def apiCfg0_def compileRegexes_Nil methodList_Nil)


lemma ExtractSchemaName_Order:
  "ExtractSchemaName ''#/components/schemas/Order'' [] = ''Order''"
  by (simp add: ExtractSchemaName_def)

lemma placeOrder_tool:
  "\<exists>tool. deriveTool orderApi apiCfg0 ''/orders'' ''post'' placeOrder = Inr tool"
  by (simp add: deriveTool_def placeOrder_def orderApi_def orderSchema_def paramsIn_def
      ExtractSchemaName_Order arrayItems_def)

lemma clash_tool:
  "\<exists>tool. deriveTool clashApi apiCfg0 ''/orders'' ''post'' placeOrder = Inr tool"
  by (simp add: deriveTool_def placeOrder_def clashApi_def orderApi_def orderSchema_def paramsIn_def
      ExtractSchemaName_Order arrayItems_def)

lemma resolved_orderApi:
  "resolvedProps orderApi placeOrder =
     [(''lines'', \<lparr>Property_Type = ''array''\<rparr>), (''note'', \<lparr>Property_Type = ''string''\<rparr>)]"
  by (simp add: resolvedProps_def resolvedMedia_def definitionOf_def placeOrder_def orderApi_def
      orderSchema_def paramsIn_def ExtractSchemaName_Order)

lemma resolved_clashApi:
  "resolvedProps clashApi placeOrder =
     [(''lines'', \<lparr>Property_Type = ''array''\<rparr>), (''sku'', \<lparr>Property_Type = ''integer''\<rparr>)]"
  by (simp add: resolvedProps_def resolvedMedia_def definitionOf_def placeOrder_def clashApi_def
      orderApi_def orderSchema_def paramsIn_def ExtractSchemaName_Order)


section \<open>Properties of the handler\<close>

lemma argString_None: "argString arguments x = None \<longleftrightarrow> (\<forall>s. arguments x \<noteq> Some (JString s))"
  by (auto simp: argString_def split: option.splits json.splits)

lemma argString_Some: "argString arguments x = Some s \<longleftrightarrow> arguments x = Some (JString s)"
  by (auto simp: argString_def split: option.splits json.splits)

lemma pathLoop_missing:
  "find (\<lambda>x. argString arguments x = None) ps = Some q \<Longrightarrow>
   pathLoop arguments ps url = Inl (''[Error] missing or invalid Path Parameter: '' @ q)"
  by (induction ps arbitrary: url) (auto split: if_splits option.splits)

lemma find_exists: "x \<in> set xs \<Longrightarrow> P x \<Longrightarrow> \<exists>y. find P xs = Some y"
  by (induction xs) auto

lemma find_only: "find P xs = Some y \<Longrightarrow> \<forall>x \<in> set xs. x \<noteq> p \<longrightarrow> \<not> P x \<Longrightarrow> y = p"
  by (induction xs) (auto split: if_splits)

lemma bodyLoop_other:
  "bodyLoop l arguments rb m0 = Inr m \<Longrightarrow> k \<notin> fst ` set rb \<Longrightarrow> m k = m0 k"
  by (induction rb arbitrary: m0) (auto split: option.splits sum.splits)

lemma bodyLoop_dom:
  "bodyLoop l arguments rb m0 = Inr m \<Longrightarrow> dom m = dom m0 \<union> fst ` set rb"
proof (induction rb arbitrary: m0)
  case Nil
  then show ?case by simp
next
  case (Cons e rest)
  obtain n' t' where e: "e = (n', t')" by (cases e)
  from Cons.prems e obtain s' v' where
    r: "bodyLoop l arguments rest (m0(n' \<mapsto> v')) = Inr m"
    by (auto split: option.splits sum.splits)
  from Cons.IH [OF r] e show ?case by auto
qed

lemma bodyLoop_lookup:
  "distinct (map fst rb) \<Longrightarrow> bodyLoop l arguments rb m0 = Inr m \<Longrightarrow> (n, t) \<in> set rb \<Longrightarrow>
   \<exists>s v. arguments n = Some (JString s) \<and> coerce l n t s = Inr v \<and> m n = Some v"
proof (induction rb arbitrary: m0)
  case Nil
  then show ?case by simp
next
  case (Cons e rest)
  obtain n' t' where e: "e = (n', t')" by (cases e)
  from Cons.prems(2) e obtain s' v' where
    s': "argString arguments n' = Some s'" and v': "coerce l n' t' s' = Inr v'"
    and r: "bodyLoop l arguments rest (m0(n' \<mapsto> v')) = Inr m"
    by (auto split: option.splits sum.splits)
  show ?case
  proof (cases "(n, t) = (n', t')")
    case True
    with Cons.prems(1) e have "n \<notin> fst ` set rest" by auto
    with bodyLoop_other [OF r] True have "m n = Some v'" by simp
    with s' v' True show ?thesis by (auto simp: argString_Some)
  next
    case False
    with Cons.prems(3) e have "(n, t) \<in> set rest" by auto
    moreover from Cons.prems(1) have "distinct (map fst rest)" by simp
    ultimately show ?thesis using Cons.IH r by blast
  qed
qed

lemma bodyLoop_fail:
  "bodyLoop l arguments before Map.empty = Inr d \<Longrightarrow>
   bodyLoop l arguments (before @ rest) Map.empty = bodyLoop l arguments rest d"
proof -
  have "bodyLoop l arguments before m0 = Inr d \<Longrightarrow>
        bodyLoop l arguments (before @ rest) m0 = bodyLoop l arguments rest d" for m0
    by (induction before arbitrary: m0) (auto split: option.splits sum.splits)
  then show "bodyLoop l arguments before Map.empty = Inr d \<Longrightarrow>
   bodyLoop l arguments (before @ rest) Map.empty = bodyLoop l arguments rest d" .
qed

lemma headerLoop_Body: "headerLoop l arguments hs req = Inr req' \<Longrightarrow> Body req' = Body req"
  by (induction hs arbitrary: req) (auto split: option.splits)

lemma apiKeyPart_Body: "Body (fst (apiKeyPart l st part)) = Body (fst st)"
  by (cases st) (simp add: apiKeyPart_def Let_def)

lemma foldl_apiKeyPart_Body: "Body (fst (foldl (apiKeyPart l) st parts)) = Body (fst st)"
  by (induction parts arbitrary: st) (simp_all add: apiKeyPart_Body)

lemma addQuery_Body: "Body (addQuery l req qv) = Body req"
  by (simp add: addQuery_def split: sum.splits)

lemma AddCookie_Body: "Body (AddCookie l req n v) = Body req"
  by (simp add: AddCookie_def Let_def)

lemma foldl_AddCookie_Body:
  "Body (foldl (\<lambda>r (name, val). AddCookie l r name val) req cs) = Body req"
  by (induction cs arbitrary: req) (auto simp: AddCookie_Body)

lemma setRequestSecurity_Body:
  "Body (setRequestSecurity l req security basicAuth apiKeyAuth bearerAuth) = Body req"
  unfolding setRequestSecurity_def Let_def case_prod_unfold
  by (simp add: foldl_AddCookie_Body [unfolded case_prod_unfold] addQuery_Body
      foldl_apiKeyPart_Body)

lemma customHeader_Body: "Body (customHeader l req pair) = Body req"
  by (simp add: customHeader_def Let_def split: list.splits)

lemma customHeaders_Body: "Body (customHeaders l req headers) = Body req"
proof -
  have "Body (foldl (customHeader l) r ps) = Body r" for r ps
    by (induction ps arbitrary: r) (simp_all add: customHeader_Body)
  then show ?thesis by (simp add: customHeaders_def)
qed

lemma foldl_sse_Body:
  "Body (foldl (\<lambda>r (k, v). r\<lparr>Header := Header_Set l (Header r) k v\<rparr>) req hs) = Body req"
  by (induction hs arbitrary: req) auto

lemma sseHeaders_Body: "Body (sseHeaders l req ctx) = Body req"
  by (cases ctx) (simp_all add: sseHeaders_def foldl_sse_Body)

lemma dispatch_outbound:
  "r \<in> set (outbound (dispatch l apiCfg ctx req)) \<Longrightarrow> Body r = Body req"
  by (auto simp: dispatch_def Let_def sseHeaders_Body customHeaders_Body setRequestSecurity_Body
      split: sum.splits)

lemma handler_sent:
  assumes "r \<in> set (outbound (CreateMCPToolHandler l reqPathParam reqQueryParam reqURL reqBody
      reqMethod reqHeader apiCfg ctx arguments))"
  shows "\<exists>data. bodyLoop l arguments reqBody Map.empty = Inr data
      \<and> json_Marshal l data = Inr (Body r)"
  using assms
  by (auto simp: CreateMCPToolHandler_def failWith_def split: sum.splits
      dest!: dispatch_outbound headerLoop_Body)

lemma handler_error_None:
  "handlerError (CreateMCPToolHandler l reqPathParam reqQueryParam reqURL reqBody
      reqMethod reqHeader apiCfg ctx arguments) = None"
  by (auto simp: CreateMCPToolHandler_def failWith_def dispatch_def Let_def split: sum.splits)

lemma Atoi_42: "Atoi ''42'' = Some 42"
  by (simp add: Atoi_def Let_def isDigit_def digitVal_def)

lemma coerce_cases:
  shows "paramType = ''string'' \<longrightarrow> coerce l paramName paramType paramStr = Inr (JString paramStr)"
    and "paramType = ''int'' \<or> paramType = ''integer'' \<longrightarrow>
        coerce l paramName paramType paramStr =
          (case Atoi paramStr of
             Some i \<Rightarrow> Inr (JInt i)
           | None \<Rightarrow> Inl (''[Error] invalid type for parameter '' @ paramName @ '', expected int''))"
    and "paramType = ''float'' \<longrightarrow>
        coerce l paramName paramType paramStr =
          (case strconv_ParseFloat l paramStr of
             Some f \<Rightarrow> Inr (JFloat f)
           | None \<Rightarrow> Inl (''[Error] invalid type for parameter '' @ paramName @ '', expected float''))"
    and "paramType = ''bool'' \<or> paramType = ''boolean'' \<longrightarrow>
        coerce l paramName paramType paramStr =
          (case ParseBool paramStr of
             Some b \<Rightarrow> Inr (JBool b)
           | None \<Rightarrow> Inl (''[Error] invalid type for parameter '' @ paramName @ '', expected bool''))"
    and "paramType = ''array'' \<longrightarrow>
        coerce l paramName paramType paramStr =
          (case json_UnmarshalArray l paramStr of
             Some a \<Rightarrow> Inr a
           | None \<Rightarrow> Inl (''[Error] invalid type for parameter '' @ paramName @ '', expected array''))"
    and "paramType = ''object'' \<longrightarrow>
        coerce l paramName paramType paramStr =
          (case json_UnmarshalObject l paramStr of
             Some obj \<Rightarrow> Inr obj
           | None \<Rightarrow> Inl (''[Error] invalid type for parameter '' @ paramName @ '', expected object''))"
    and "paramType \<notin> set [''string'', ''int'', ''integer'', ''float'', ''bool'', ''boolean'',
                           ''array'', ''object''] \<longrightarrow>
        coerce l paramName paramType paramStr =
          Inl (''[Error] unsupported parameter type: '' @ paramType @ '' for '' @ paramName)"
  by (auto simp: coerce_def split: option.splits)

lemma dispatch_lib0:
  "outbound (dispatch lib0 apiCfg0 None req) =
     [req\<lparr>Header := Header_Set lib0 (Header req) ''Content-Type'' ''application/json''\<rparr>]"
  by (simp add: dispatch_def Let_def apiCfg0_def setRequestSecurity_def TrimSpace_Nil
      addQuery_def customHeaders_def sseHeaders_def lib0_def)

lemma post_pet_sends:
  "\<exists>r. outbound (CreateMCPToolHandler lib0 [] [] ''https://api.example.com/v1/pets''
            [(''name'', ''string''), (''age'', ''integer'')] ''post'' [] apiCfg0 None petArgs) = [r]"
proof -
  have b: "bodyLoop lib0 petArgs [(''name'', ''string''), (''age'', ''integer'')] Map.empty
      = Inr [''name'' \<mapsto> JString ''Rex'', ''age'' \<mapsto> JInt 42]"
    by (simp add: petArgs_def argString_def coerce_def Atoi_42)
  have m: "json_Marshal lib0 data = Inr ''{}''" for data by (simp add: lib0_def)
  have n: "http_NewRequest lib0 m u =
      Inr \<lparr>Method = m, Request_URL = \<lparr>URL_Rest = u, RawQuery = []\<rparr>, Header = [], Body = []\<rparr>"
    for m u by (simp add: lib0_def)
  show ?thesis
    by (simp add: CreateMCPToolHandler_def queryStage_def b m n dispatch_lib0
        del: bodyLoop.simps)
qed


lemma bodyLoop_cong:
  "\<forall>n \<in> fst ` set rb. arguments n = arguments' n \<Longrightarrow>
   bodyLoop l arguments rb m0 = bodyLoop l arguments' rb m0"
proof (induction rb arbitrary: m0)
  case Nil
  then show ?case by simp
next
  case (Cons e rest)
  obtain n t where e: "e = (n, t)" by (cases e)
  from Cons.prems e have here: "argString arguments n = argString arguments' n"
    by (simp add: argString_def)
  from Cons.prems have "\<forall>n \<in> fst ` set rest. arguments n = arguments' n" by simp
  then have "bodyLoop l arguments rest m = bodyLoop l arguments' rest m" for m
    by (rule Cons.IH)
  with here e show ?case by (simp split: option.splits sum.splits)
qed


section \<open>Properties of the request security\<close>

lemma indexOf_None: "indexOf s c = None \<longleftrightarrow> c \<notin> set s"
  by (induction s) auto

lemma Index_absent: "Index s c = - 1 \<longleftrightarrow> c \<notin> set s"
proof (cases "indexOf s c")
  case None
  then show ?thesis using indexOf_None [of s c] by (simp add: Index_def)
next
  case (Some i)
  then show ?thesis using indexOf_None [of s c] by (simp add: Index_def)
qed


lemma indexOf_append: "c \<notin> set xs \<Longrightarrow> indexOf (xs @ c # ys) c = Some (length xs)"
  by (induction xs) auto

lemma Index_append: "c \<notin> set xs \<Longrightarrow> Index (xs @ c # ys) c = int (length xs)"
  by (simp add: Index_def indexOf_append)

lemma Split_append: "sep \<notin> set x \<Longrightarrow> Split (x @ sep # r) sep = x # Split r sep"
  by (induction x) (auto split: list.splits)

lemma Split_joinAmp:
  "xs \<noteq> [] \<Longrightarrow> \<forall>x \<in> set xs. CHR ''&'' \<notin> set x \<Longrightarrow> Split (joinAmp xs) (CHR ''&'') = xs"
proof (induction xs rule: joinAmp.induct)
  case 1
  then show ?case by simp
next
  case (2 x)
  then show ?case by (simp add: Split_whole)
next
  case (3 x y ys)
  then show ?case by (simp add: Split_append)
qed

lemma upperhex_set: "n < 16 \<Longrightarrow> upperhex n \<in> set ''0123456789ABCDEF''"
  unfolding upperhex_def by (rule nth_mem) simp

lemma of_char_div16: "(of_char (c :: char) :: nat) div 16 < 16"
proof -
  have "(of_char c :: nat) < 16 * 16" using nat_of_char_less_256 [of c] by simp
  then show ?thesis by (rule less_mult_imp_div_less)
qed

lemma escapeByte_no_amp: "CHR ''&'' \<notin> set (escapeByte c)"
proof -
  have a: "upperhex (of_char c div 16) \<noteq> CHR ''&''"
    using upperhex_set [OF of_char_div16 [of c]] by auto
  have "(of_char c :: nat) mod 16 < 16" by simp
  then have b: "upperhex (of_char c mod 16) \<noteq> CHR ''&''"
    using upperhex_set [of "of_char c mod 16"] by auto
  from a b show ?thesis
    by (auto simp: escapeByte_def unreserved_def)
qed

lemma QueryEscape_no_amp: "CHR ''&'' \<notin> set (QueryEscape s)"
  by (simp add: QueryEscape_def escapeByte_no_amp)

lemma encodedPairs_no_amp: "\<forall>x \<in> set (encodedPairs q). CHR ''&'' \<notin> set x"
  by (auto simp: encodedPairs_def QueryEscape_no_amp)

lemma map_of_Values_Set: "map_of (Values_Set q k v) = (map_of q)(k \<mapsto> [v])"
  by (simp add: Values_Set_def update_conv')

lemma encodedPairs_Set:
  "(QueryEscape k @ CHR ''='' # QueryEscape v) \<in> set (encodedPairs (Values_Set q k v))"
proof -
  have "k \<in> fst ` set (Values_Set q k v)"
    by (simp add: Values_Set_def dom_update)
  then show ?thesis
    by (auto simp: encodedPairs_def map_of_Values_Set intro!: bexI [of _ k])
qed

lemma Encode_Set:
  "(QueryEscape k @ CHR ''='' # QueryEscape v)
     \<in> set (Split (Values_Encode (Values_Set q k v)) (CHR ''&''))"
proof -
  have ne: "encodedPairs (Values_Set q k v) \<noteq> []"
    using encodedPairs_Set [of k v q] by auto
  show ?thesis
    unfolding Values_Encode_def
    using Split_joinAmp [OF ne encodedPairs_no_amp] encodedPairs_Set [of k v q] by simp
qed

lemma QueryEscape_token: "QueryEscape ''token'' = ''token''"
  by (simp add: QueryEscape_def escapeByte_def unreserved_def)

lemma QueryEscape_abc123: "QueryEscape ''abc123'' = ''abc123''"
  by (simp add: QueryEscape_def escapeByte_def unreserved_def)

lemma apiKeyPart_skip:
  assumes "part = TrimSpace part0"
    and "CHR '':'' \<notin> set part \<or> CHR ''='' \<notin> set part
         \<or> Index part (CHR ''='') < Index part (CHR '':'') + 2"
  shows "apiKeyPart l st part0 = st"
  using assms by (cases st) (auto simp: apiKeyPart_def Let_def Index_absent)

lemma apiKeyPart_entry:
  assumes shape: "TrimSpace part0 = loc @ CHR '':'' # nm @ CHR ''='' # vl"
    and loc: "CHR '':'' \<notin> set loc" "CHR ''='' \<notin> set loc"
    and nm: "CHR ''='' \<notin> set nm" "nm \<noteq> []"
  shows "apiKeyPart l (req, queryValues, cookieValues) part0 =
     (if ToLower l (TrimSpace loc) = ''header'' then
        (req\<lparr>Header := Header_Set l (Header req) (TrimSpace nm) (TrimSpace vl)\<rparr>,
         queryValues, cookieValues)
      else if ToLower l (TrimSpace loc) = ''query'' then
        (req, AList.update (TrimSpace nm) (TrimSpace vl) queryValues, cookieValues)
      else if ToLower l (TrimSpace loc) = ''cookie'' then
        (req, queryValues, cookieValues @ [(TrimSpace nm, TrimSpace vl)])
      else (req, queryValues, cookieValues))"
proof -
  let ?part = "TrimSpace part0"
  have ci: "Index ?part (CHR '':'') = int (length loc)"
    unfolding shape using loc(1) by (rule Index_append)
  have "CHR ''='' \<notin> set (loc @ CHR '':'' # nm)" using loc(2) nm(1) by simp
  then have "Index ((loc @ CHR '':'' # nm) @ CHR ''='' # vl) (CHR ''='')
      = int (length (loc @ CHR '':'' # nm))"
    by (rule Index_append)
  then have ei: "Index ?part (CHR ''='') = int (length loc + 1 + length nm)"
    unfolding shape by simp
  have ne: "?part \<noteq> []" unfolding shape by simp
  have ok: "\<not> (Index ?part (CHR '':'') = - 1 \<or> Index ?part (CHR ''='') = - 1
      \<or> Index ?part (CHR ''='') < Index ?part (CHR '':'') + 2)"
    using nm(2) by (simp add: ci ei)
  have n0: "nat (Index ?part (CHR '':'')) = length loc" by (simp add: ci)
  have n1: "nat (Index ?part (CHR '':'') + 1) = Suc (length loc)" by (simp add: ci)
  have n2: "nat (Index ?part (CHR ''='')) = Suc (length loc + length nm)" by (simp add: ei)
  have n3: "nat (Index ?part (CHR ''='') + 1) = Suc (Suc (length loc + length nm))"
    by (simp add: ei)
  have t1: "take (nat (Index ?part (CHR '':''))) ?part = loc"
    unfolding n0 by (simp add: shape)
  have t2: "take (nat (Index ?part (CHR ''='')) - nat (Index ?part (CHR '':'') + 1))
        (drop (nat (Index ?part (CHR '':'') + 1)) ?part) = nm"
    unfolding n1 n2 by (simp add: shape)
  have t3: "drop (nat (Index ?part (CHR ''='') + 1)) ?part = vl"
    unfolding n3 by (simp add: shape)
  show ?thesis
    unfolding apiKeyPart_def Let_def prod.case
    by (simp only: ne ok t1 t2 t3 if_False)
qed

lemma TrimSpace_examples:
  "TrimSpace ''apiKey'' = ''apiKey''"
  "TrimSpace ''query:token=abc123'' = ''query:token=abc123''"
  "TrimSpace ''query'' = ''query''"
  "TrimSpace ''token'' = ''token''"
  "TrimSpace ''abc123'' = ''abc123''"
  by (simp_all add: TrimSpace_def spaceRunes_def)

lemma ToLower_query: "ToLower l ''query'' = ''query''"
  by (simp add: ToLower_def isASCII_def lowerByte_def)

lemma example_part:
  "apiKeyPart l (req, [], []) ''query:token=abc123'' = (req, [(''token'', ''abc123'')], [])"
proof -
  have shape: "TrimSpace ''query:token=abc123'' = ''query'' @ CHR '':'' # ''token'' @ CHR ''='' # ''abc123''"
    by (simp add: TrimSpace_examples)
  show ?thesis
    by (subst apiKeyPart_entry [OF shape]) (simp_all add: TrimSpace_examples ToLower_query)
qed

lemma setRequestSecurity_apiKey:
  "TrimSpace security = ''apiKey'' \<and> apiKeyAuth \<noteq> [] \<longrightarrow>
   setRequestSecurity l req security basicAuth apiKeyAuth bearerAuth =
     (case foldl (apiKeyPart l) (req, [], []) (Split apiKeyAuth (CHR '','')) of
        (req3, queryValues, cookieValues) \<Rightarrow>
          foldl (\<lambda>r (name, val). AddCookie l r name val)
            (addQuery l req3 queryValues) cookieValues)"
  by (simp add: setRequestSecurity_def Let_def)

lemma example_security:
  "setRequestSecurity l req ''apiKey'' basicAuth ''query:token=abc123'' bearerAuth =
     addQuery l req [(''token'', ''abc123'')]"
proof -
  have s: "Split ''query:token=abc123'' (CHR '','') = [''query:token=abc123'']"
    by (simp add: Split_whole)
  have "TrimSpace ''apiKey'' = ''apiKey'' \<and> ''query:token=abc123'' \<noteq> []"
    by (simp add: TrimSpace_examples)
  with setRequestSecurity_apiKey [of "''apiKey''" "''query:token=abc123''" l req basicAuth bearerAuth]
  show ?thesis by (simp add: s example_part del: Split.simps)
qed

lemma addQuery_parsed:
  "queryValues \<noteq> [] \<and> url_Parse l (url_String l (Request_URL req)) = Inr u \<longrightarrow>
   addQuery l req queryValues =
     req\<lparr>Request_URL :=
           u\<lparr>RawQuery :=
               Values_Encode (foldl (\<lambda>q (k, v). Values_Set q k v)
                                (url_ParseQuery l (RawQuery u)) queryValues)\<rparr>\<rparr>"
  by (simp add: addQuery_def)

lemma addQuery_Header: "Header (addQuery l req queryValues) = Header req"
  by (simp add: addQuery_def split: sum.splits)

lemma AddCookie_Cookie:
  "Header_Get l (Header (AddCookie l req name val)) ''Cookie'' =
     (if Header_Get l (Header req) ''Cookie'' = [] then http_cookieString l name val
      else Header_Get l (Header req) ''Cookie'' @ ''; '' @ http_cookieString l name val)"
  by (simp add: AddCookie_def Let_def Header_Get_def Header_Set_def update_conv')

section \<open>Claims\<close>

subsection \<open>C1: a missing path parameter\<close>

text \<open>
  C1. Let \<open>p\<close> be a declared path parameter for which the arguments hold no string
  (the name is absent, or its value is not a string). Then the handler returns the
  text result \<^verbatim>\<open>[Error] missing or invalid Path Parameter: q\<close>, marked as an error,
  with a nil handler error and without handing any request to the HTTP client. The
  parameter \<open>q\<close> it names is the first declared path parameter without a string
  argument: the loop stops there. So it names \<open>p\<close> itself whenever every other
  declared path parameter has a string argument, in particular when \<open>p\<close> is the only
  one.
\<close>

theorem C1_missing_path_parameter:
  assumes "p \<in> set reqPathParam" and "\<forall>s. arguments p \<noteq> Some (JString s)"
  shows "\<exists>q. find (\<lambda>x. \<forall>s. arguments x \<noteq> Some (JString s)) reqPathParam = Some q
     \<and> CreateMCPToolHandler l reqPathParam reqQueryParam reqURL reqBody reqMethod reqHeader apiCfg
          ctx arguments =
        \<lparr>toolResult = NewToolResultError (''[Error] missing or invalid Path Parameter: '' @ q),
          handlerError = None, outbound = []\<rparr>
     \<and> prefix ''[Error]'' (''[Error] missing or invalid Path Parameter: '' @ q)
     \<and> ((\<forall>x \<in> set reqPathParam. x \<noteq> p \<longrightarrow> (\<exists>s. arguments x = Some (JString s))) \<longrightarrow> q = p)"
proof -
  let ?P = "\<lambda>x. \<forall>s. arguments x \<noteq> Some (JString s)"
  from assms obtain q where q: "find ?P reqPathParam = Some q"
    using find_exists [of p reqPathParam ?P] by blast
  then have "find (\<lambda>x. argString arguments x = None) reqPathParam = Some q"
    by (simp add: argString_None)
  then have "pathLoop arguments reqPathParam reqURL =
      Inl (''[Error] missing or invalid Path Parameter: '' @ q)"
    by (rule pathLoop_missing)
  then have r: "CreateMCPToolHandler l reqPathParam reqQueryParam reqURL reqBody reqMethod reqHeader
      apiCfg ctx arguments =
        \<lparr>toolResult = NewToolResultError (''[Error] missing or invalid Path Parameter: '' @ q),
          handlerError = None, outbound = []\<rparr>"
    by (simp add: CreateMCPToolHandler_def failWith_def)
  have f: "(\<forall>x \<in> set reqPathParam. x \<noteq> p \<longrightarrow> (\<exists>s. arguments x = Some (JString s))) \<longrightarrow> q = p"
    using find_only [OF q, of p] by blast
  have pre: "prefix ''[Error]'' (''[Error] missing or invalid Path Parameter: '' @ q)"
    by simp
  from q r f pre show ?thesis by blast
qed

theorem C1_missing_path_parameter_witness:
  "CreateMCPToolHandler lib0 [''id''] [] ''https://api.example.com/v1/pets/{id}'' [] ''get'' []
      apiCfg0 None Map.empty =
     \<lparr>toolResult = NewToolResultError ''[Error] missing or invalid Path Parameter: id'',
       handlerError = None, outbound = []\<rparr>
   \<and> CreateMCPToolHandler lib0 [''id''] [] ''https://api.example.com/v1/pets/{id}'' [] ''get'' []
      apiCfg0 None [''id'' \<mapsto> JInt 7] =
     \<lparr>toolResult = NewToolResultError ''[Error] missing or invalid Path Parameter: id'',
       handlerError = None, outbound = []\<rparr>"
proof -
  have a: "''id'' \<in> set [''id'']" by simp
  have b: "\<forall>s. (Map.empty :: string \<rightharpoonup> json) ''id'' \<noteq> Some (JString s)" by simp
  have c: "\<forall>s. [''id'' \<mapsto> JInt 7] ''id'' \<noteq> Some (JString s)" by simp
  have only: "\<forall>x \<in> set [''id'']. x \<noteq> ''id'' \<longrightarrow> (\<exists>s. arguments x = Some (JString s))"
    for arguments :: "string \<rightharpoonup> json"
    by simp
  obtain q where q: "CreateMCPToolHandler lib0 [''id''] [] ''https://api.example.com/v1/pets/{id}'' []
        ''get'' [] apiCfg0 None Map.empty =
      \<lparr>toolResult = NewToolResultError (''[Error] missing or invalid Path Parameter: '' @ q),
        handlerError = None, outbound = []\<rparr>" and "q = ''id''"
    using C1_missing_path_parameter [where p = "''id''" and reqPathParam = "[''id'']"
        and arguments = Map.empty and l = lib0 and reqQueryParam = "[]"
        and reqURL = "''https://api.example.com/v1/pets/{id}''" and reqBody = "[]"
        and reqMethod = "''get''" and reqHeader = "[]" and apiCfg = apiCfg0 and ctx = None]
      a b only [of Map.empty]
    by blast
  then have 1: "CreateMCPToolHandler lib0 [''id''] [] ''https://api.example.com/v1/pets/{id}'' []
        ''get'' [] apiCfg0 None Map.empty =
      \<lparr>toolResult = NewToolResultError ''[Error] missing or invalid Path Parameter: id'',
        handlerError = None, outbound = []\<rparr>"
    by simp
  obtain q' where q': "CreateMCPToolHandler lib0 [''id''] [] ''https://api.example.com/v1/pets/{id}'' []
        ''get'' [] apiCfg0 None [''id'' \<mapsto> JInt 7] =
      \<lparr>toolResult = NewToolResultError (''[Error] missing or invalid Path Parameter: '' @ q'),
        handlerError = None, outbound = []\<rparr>" and "q' = ''id''"
    using C1_missing_path_parameter [where p = "''id''" and reqPathParam = "[''id'']"
        and arguments = "[''id'' \<mapsto> JInt 7]" and l = lib0 and reqQueryParam = "[]"
        and reqURL = "''https://api.example.com/v1/pets/{id}''" and reqBody = "[]"
        and reqMethod = "''get''" and reqHeader = "[]" and apiCfg = apiCfg0 and ctx = None]
      a c only [of "[''id'' \<mapsto> JInt 7]"]
    by blast
  then have 2: "CreateMCPToolHandler lib0 [''id''] [] ''https://api.example.com/v1/pets/{id}'' []
        ''get'' [] apiCfg0 None [''id'' \<mapsto> JInt 7] =
      \<lparr>toolResult = NewToolResultError ''[Error] missing or invalid Path Parameter: id'',
        handlerError = None, outbound = []\<rparr>"
    by simp
  from 1 2 show ?thesis by (rule conjI)
qed

subsection \<open>C2: coercion of the body fields\<close>

text \<open>
  C2. Let \<open>(paramName, paramType)\<close> be an entry of the body field map. Whenever the
  handler hands a request to the HTTP client, the argument for the field is a string
  \<open>s\<close>, \<open>coerce\<close> turned it into a value \<open>v\<close>, and the request body is the JSON
  printing of a map that has exactly the declared fields and holds \<open>v\<close> for this one.
  \<open>coerce\<close> follows the type tag: \<^verbatim>\<open>string\<close> keeps the string;
  \<^verbatim>\<open>int\<close> and \<^verbatim>\<open>integer\<close> give the integer \<^verbatim>\<open>Atoi\<close> reads (so \<^verbatim>\<open>"42"\<close>
  becomes the integer 42); \<^verbatim>\<open>float\<close> gives the library's floating-point number;
  \<^verbatim>\<open>bool\<close> and \<^verbatim>\<open>boolean\<close> give a boolean; \<^verbatim>\<open>array\<close> and \<^verbatim>\<open>object\<close>
  give what the JSON parser reads. A string that does not parse gives the message
  \<^verbatim>\<open>[Error] invalid type for parameter NAME, expected T\<close> with \<open>T\<close> one of
  \<^verbatim>\<open>int\<close>, \<^verbatim>\<open>float\<close>, \<^verbatim>\<open>bool\<close>, \<^verbatim>\<open>array\<close>, \<^verbatim>\<open>object\<close>; any other tag
  gives \<^verbatim>\<open>[Error] unsupported parameter type: TAG for NAME\<close>. When the path and
  query stages pass and the fields visited before this one are fine, that message is
  the handler's result and no request is sent. The map's keys are distinct, as in
  any Go map; the list is the order in which this call visits them.
\<close>

theorem C2_body_coercion:
  assumes "distinct (map fst reqBody)" and "(paramName, paramType) \<in> set reqBody"
  shows
  "(\<forall>r \<in> set (outbound (CreateMCPToolHandler l reqPathParam reqQueryParam reqURL reqBody
                          reqMethod reqHeader apiCfg ctx arguments)).
      \<exists>s v data. arguments paramName = Some (JString s)
        \<and> coerce l paramName paramType s = Inr v
        \<and> data paramName = Some v \<and> dom data = fst ` set reqBody
        \<and> json_Marshal l data = Inr (Body r))
   \<and> (paramType = ''string'' \<longrightarrow> coerce l paramName paramType paramStr = Inr (JString paramStr))
   \<and> (paramType = ''int'' \<or> paramType = ''integer'' \<longrightarrow>
        coerce l paramName paramType paramStr =
          (case Atoi paramStr of
             Some i \<Rightarrow> Inr (JInt i)
           | None \<Rightarrow> Inl (''[Error] invalid type for parameter '' @ paramName @ '', expected int'')))
   \<and> (paramType = ''float'' \<longrightarrow>
        coerce l paramName paramType paramStr =
          (case strconv_ParseFloat l paramStr of
             Some f \<Rightarrow> Inr (JFloat f)
           | None \<Rightarrow> Inl (''[Error] invalid type for parameter '' @ paramName @ '', expected float'')))
   \<and> (paramType = ''bool'' \<or> paramType = ''boolean'' \<longrightarrow>
        coerce l paramName paramType paramStr =
          (case ParseBool paramStr of
             Some b \<Rightarrow> Inr (JBool b)
           | None \<Rightarrow> Inl (''[Error] invalid type for parameter '' @ paramName @ '', expected bool'')))
   \<and> (paramType = ''array'' \<longrightarrow>
        coerce l paramName paramType paramStr =
          (case json_UnmarshalArray l paramStr of
             Some a \<Rightarrow> Inr a
           | None \<Rightarrow> Inl (''[Error] invalid type for parameter '' @ paramName @ '', expected array'')))
   \<and> (paramType = ''object'' \<longrightarrow>
        coerce l paramName paramType paramStr =
          (case json_UnmarshalObject l paramStr of
             Some obj \<Rightarrow> Inr obj
           | None \<Rightarrow> Inl (''[Error] invalid type for parameter '' @ paramName @ '', expected object'')))
   \<and> (paramType \<notin> set [''string'', ''int'', ''integer'', ''float'', ''bool'', ''boolean'',
                           ''array'', ''object''] \<longrightarrow>
        coerce l paramName paramType paramStr =
          Inl (''[Error] unsupported parameter type: '' @ paramType @ '' for '' @ paramName))
   \<and> coerce l paramName ''integer'' ''42'' = Inr (JInt 42)
   \<and> (pathLoop arguments reqPathParam reqURL = Inr pathURL
        \<and> queryStage l arguments reqQueryParam pathURL = Inr queryURL
        \<and> reqBody = before @ (paramName, paramType) # after
        \<and> bodyLoop l arguments before Map.empty = Inr d
        \<and> arguments paramName = Some (JString paramStr)
        \<and> coerce l paramName paramType paramStr = Inl msg \<longrightarrow>
        CreateMCPToolHandler l reqPathParam reqQueryParam reqURL reqBody reqMethod reqHeader
          apiCfg ctx arguments =
        \<lparr>toolResult = NewToolResultError msg, handlerError = None, outbound = []\<rparr>)"
proof -
  have sent: "\<forall>r \<in> set (outbound (CreateMCPToolHandler l reqPathParam reqQueryParam reqURL reqBody
                          reqMethod reqHeader apiCfg ctx arguments)).
      \<exists>s v data. arguments paramName = Some (JString s)
        \<and> coerce l paramName paramType s = Inr v
        \<and> data paramName = Some v \<and> dom data = fst ` set reqBody
        \<and> json_Marshal l data = Inr (Body r)"
  proof
    fix r
    assume "r \<in> set (outbound (CreateMCPToolHandler l reqPathParam reqQueryParam reqURL reqBody
                          reqMethod reqHeader apiCfg ctx arguments))"
    then obtain data where d: "bodyLoop l arguments reqBody Map.empty = Inr data"
      and m: "json_Marshal l data = Inr (Body r)"
      using handler_sent by blast
    from bodyLoop_lookup [OF assms(1) d assms(2)] obtain s v where
      "arguments paramName = Some (JString s)" "coerce l paramName paramType s = Inr v"
      "data paramName = Some v"
      by blast
    moreover from bodyLoop_dom [OF d] have "dom data = fst ` set reqBody" by simp
    ultimately show "\<exists>s v data. arguments paramName = Some (JString s)
        \<and> coerce l paramName paramType s = Inr v
        \<and> data paramName = Some v \<and> dom data = fst ` set reqBody
        \<and> json_Marshal l data = Inr (Body r)"
      using m by blast
  qed
  have int42: "coerce l paramName ''integer'' ''42'' = Inr (JInt 42)"
    by (simp add: coerce_def Atoi_42)
  have fail: "pathLoop arguments reqPathParam reqURL = Inr pathURL
        \<and> queryStage l arguments reqQueryParam pathURL = Inr queryURL
        \<and> reqBody = before @ (paramName, paramType) # after
        \<and> bodyLoop l arguments before Map.empty = Inr d
        \<and> arguments paramName = Some (JString paramStr)
        \<and> coerce l paramName paramType paramStr = Inl msg \<longrightarrow>
        CreateMCPToolHandler l reqPathParam reqQueryParam reqURL reqBody reqMethod reqHeader
          apiCfg ctx arguments =
        \<lparr>toolResult = NewToolResultError msg, handlerError = None, outbound = []\<rparr>"
    by (auto simp: CreateMCPToolHandler_def failWith_def bodyLoop_fail argString_def)
  note cs = coerce_cases [of paramType l paramName paramStr]
  show ?thesis
    by (intro conjI) (rule sent cs int42 fail)+
qed

theorem C2_body_coercion_witness:
  "(\<exists>r data. outbound (CreateMCPToolHandler lib0 [] [] ''https://api.example.com/v1/pets''
            [(''name'', ''string''), (''age'', ''integer'')] ''post'' [] apiCfg0 None petArgs) = [r]
      \<and> data ''age'' = Some (JInt 42) \<and> json_Marshal lib0 data = Inr (Body r))
   \<and> CreateMCPToolHandler lib0 [] [] ''https://api.example.com/v1/pets''
        [(''name'', ''string''), (''age'', ''integer'')] ''post'' [] apiCfg0 None
        [''name'' \<mapsto> JString ''Rex'', ''age'' \<mapsto> JString ''old''] =
      \<lparr>toolResult = NewToolResultError ''[Error] invalid type for parameter age, expected int'',
        handlerError = None, outbound = []\<rparr>"
proof -
  let ?rb = "[(''name'', ''string''), (''age'', ''integer'')]"
  let ?url = "''https://api.example.com/v1/pets''"
  let ?bad = "[''name'' \<mapsto> JString ''Rex'', ''age'' \<mapsto> JString ''old'']"
  have dist: "distinct (map fst ?rb)" by simp
  have mem: "(''age'', ''integer'') \<in> set ?rb" by simp
  note c2 = C2_body_coercion [OF dist mem, where l = lib0 and reqPathParam = "[]"
      and reqQueryParam = "[]" and reqURL = ?url
      and reqMethod = "''post''" and reqHeader = "[]" and apiCfg = apiCfg0 and ctx = None]
  note sent = c2 [where arguments = petArgs, THEN conjunct1]
  note int42 = c2 [THEN conjunct2, THEN conjunct2, THEN conjunct2, THEN conjunct2,
      THEN conjunct2, THEN conjunct2, THEN conjunct2, THEN conjunct2, THEN conjunct1]
  note fail = c2 [where arguments = ?bad and paramStr = "''old''"
      and pathURL = ?url and queryURL = ?url
      and before = "[(''name'', ''string'')]" and after = "[]"
      and d = "[''name'' \<mapsto> JString ''Rex'']"
      and msg = "''[Error] invalid type for parameter age, expected int''",
      THEN conjunct2, THEN conjunct2, THEN conjunct2, THEN conjunct2,
      THEN conjunct2, THEN conjunct2, THEN conjunct2, THEN conjunct2, THEN conjunct2]
  obtain r where r: "outbound (CreateMCPToolHandler lib0 [] [] ?url
            ?rb ''post'' [] apiCfg0 None petArgs) = [r]"
    using post_pet_sends by blast
  then have "r \<in> set (outbound (CreateMCPToolHandler lib0 [] [] ?url
            ?rb ''post'' [] apiCfg0 None petArgs))" by simp
  with sent obtain s v data where
    s: "petArgs ''age'' = Some (JString s)" and v: "coerce lib0 ''age'' ''integer'' s = Inr v"
    and d: "data ''age'' = Some v" and j: "json_Marshal lib0 data = Inr (Body r)"
    by blast
  from s have "s = ''42''" by (simp add: petArgs_def)
  with v int42 have "v = JInt 42" by simp
  with d have d42: "data ''age'' = Some (JInt 42)" by simp
  have first: "\<exists>r data. outbound (CreateMCPToolHandler lib0 [] []
        ?url ?rb ''post'' [] apiCfg0 None petArgs) = [r]
      \<and> data ''age'' = Some (JInt 42) \<and> json_Marshal lib0 data = Inr (Body r)"
    by (intro exI [of _ r] exI [of _ data] conjI) (rule r d42 j)+
  have h: "pathLoop ?bad [] ?url = Inr ?url
        \<and> queryStage lib0 ?bad [] ?url = Inr ?url
        \<and> ?rb = [(''name'', ''string'')] @ (''age'', ''integer'') # []
        \<and> bodyLoop lib0 ?bad [(''name'', ''string'')] Map.empty = Inr [''name'' \<mapsto> JString ''Rex'']
        \<and> ?bad ''age'' = Some (JString ''old'')
        \<and> coerce lib0 ''age'' ''integer'' ''old'' =
            Inl ''[Error] invalid type for parameter age, expected int''"
    by (simp add: queryStage_def argString_def coerce_def Atoi_def Let_def isDigit_def)
  have second: "CreateMCPToolHandler lib0 [] [] ?url ?rb ''post'' [] apiCfg0 None ?bad =
      \<lparr>toolResult = NewToolResultError ''[Error] invalid type for parameter age, expected int'',
        handlerError = None, outbound = []\<rparr>"
    using fail h by (rule mp)
  from first second show ?thesis by (rule conjI)
qed

subsection \<open>C3: the request URL\<close>

text \<open>
  C3. The base URL is the configured \<^verbatim>\<open>baseUrl\<close> when that is not empty. Otherwise,
  for a document with a non-empty \<^verbatim>\<open>openapi\<close> marker, it is the first server URL
  without its trailing slash, or \<^verbatim>\<open>/\<close> when there is no server; for any other
  document it is \<^verbatim>\<open>host\<close>, prefixed with \<^verbatim>\<open>https://\<close> unless it starts with
  \<^verbatim>\<open>http://\<close> or \<^verbatim>\<open>https://\<close>, and a non-empty \<^verbatim>\<open>basePath\<close> is joined to it
  with one slash (one trailing slash of the host and one leading slash of the base
  path are dropped first). The request URL is the base URL without its trailing
  slash, a slash, and the path without its leading slash, and it is the URL of the
  tool derived for the operation. Stripping removes exactly one slash. The two
  examples of the claim are the last two conjuncts.
\<close>

theorem C3_request_URL:
  "(BaseUrl apiCfg \<noteq> [] \<longrightarrow> baseURL_of swaggerSpec apiCfg = BaseUrl apiCfg)
   \<and> (BaseUrl apiCfg = [] \<and> OpenAPI swaggerSpec \<noteq> [] \<and> Servers swaggerSpec \<noteq> [] \<longrightarrow>
        baseURL_of swaggerSpec apiCfg = TrimSuffix (Server_URL (hd (Servers swaggerSpec))) ''/'')
   \<and> (BaseUrl apiCfg = [] \<and> OpenAPI swaggerSpec \<noteq> [] \<and> Servers swaggerSpec = [] \<longrightarrow>
        baseURL_of swaggerSpec apiCfg = ''/'')
   \<and> (BaseUrl apiCfg = [] \<and> OpenAPI swaggerSpec = [] \<longrightarrow>
        baseURL_of swaggerSpec apiCfg =
          (if BasePath swaggerSpec = [] then
             (if prefix ''http://'' (Host swaggerSpec) \<or> prefix ''https://'' (Host swaggerSpec)
              then Host swaggerSpec else ''https://'' @ Host swaggerSpec)
           else
             TrimSuffix (if prefix ''http://'' (Host swaggerSpec)
                            \<or> prefix ''https://'' (Host swaggerSpec)
                         then Host swaggerSpec else ''https://'' @ Host swaggerSpec) ''/''
             @ ''/'' @ TrimPrefix (BasePath swaggerSpec) ''/''))
   \<and> reqURL_of swaggerSpec apiCfg path =
        TrimSuffix (baseURL_of swaggerSpec apiCfg) ''/'' @ ''/'' @ TrimPrefix path ''/''
   \<and> (deriveTool swaggerSpec apiCfg path method details = Inr tool \<longrightarrow>
        Tool_reqURL tool = reqURL_of swaggerSpec apiCfg path)
   \<and> TrimSuffix s ''/'' = (if s \<noteq> [] \<and> last s = CHR ''/'' then butlast s else s)
   \<and> TrimPrefix s ''/'' = (if s \<noteq> [] \<and> hd s = CHR ''/'' then tl s else s)
   \<and> (BaseUrl apiCfg = [] \<and> OpenAPI swaggerSpec = [] \<and> Host swaggerSpec = ''api.example.com''
        \<and> BasePath swaggerSpec = ''/v1'' \<longrightarrow>
        baseURL_of swaggerSpec apiCfg = ''https://api.example.com/v1'')
   \<and> (BaseUrl apiCfg = [] \<and> OpenAPI swaggerSpec \<noteq> []
        \<and> Servers swaggerSpec = [\<lparr>Server_URL = ''http://x/''\<rparr>] \<longrightarrow>
        baseURL_of swaggerSpec apiCfg = ''http://x'')"
proof -
  have tool: "deriveTool swaggerSpec apiCfg path method details = Inr tool \<longrightarrow>
        Tool_reqURL tool = reqURL_of swaggerSpec apiCfg path"
    by (simp add: deriveTool_fields(2))
  have ex1: "BaseUrl apiCfg = [] \<and> OpenAPI swaggerSpec = [] \<and> Host swaggerSpec = ''api.example.com''
        \<and> BasePath swaggerSpec = ''/v1'' \<longrightarrow>
        baseURL_of swaggerSpec apiCfg = ''https://api.example.com/v1''"
    by (simp add: baseURL_of_def HasPrefix_def Let_def TrimSuffix_slash TrimPrefix_slash)
  have ex2: "BaseUrl apiCfg = [] \<and> OpenAPI swaggerSpec \<noteq> []
        \<and> Servers swaggerSpec = [\<lparr>Server_URL = ''http://x/''\<rparr>] \<longrightarrow>
        baseURL_of swaggerSpec apiCfg = ''http://x''"
    by (simp add: baseURL_of_def HasPrefix_def Let_def TrimSuffix_slash TrimPrefix_slash)
  have base: "(BaseUrl apiCfg \<noteq> [] \<longrightarrow> baseURL_of swaggerSpec apiCfg = BaseUrl apiCfg)
   \<and> (BaseUrl apiCfg = [] \<and> OpenAPI swaggerSpec \<noteq> [] \<and> Servers swaggerSpec \<noteq> [] \<longrightarrow>
        baseURL_of swaggerSpec apiCfg = TrimSuffix (Server_URL (hd (Servers swaggerSpec))) ''/'')
   \<and> (BaseUrl apiCfg = [] \<and> OpenAPI swaggerSpec \<noteq> [] \<and> Servers swaggerSpec = [] \<longrightarrow>
        baseURL_of swaggerSpec apiCfg = ''/'')
   \<and> (BaseUrl apiCfg = [] \<and> OpenAPI swaggerSpec = [] \<longrightarrow>
        baseURL_of swaggerSpec apiCfg =
          (if BasePath swaggerSpec = [] then
             (if prefix ''http://'' (Host swaggerSpec) \<or> prefix ''https://'' (Host swaggerSpec)
              then Host swaggerSpec else ''https://'' @ Host swaggerSpec)
           else
             TrimSuffix (if prefix ''http://'' (Host swaggerSpec)
                            \<or> prefix ''https://'' (Host swaggerSpec)
                         then Host swaggerSpec else ''https://'' @ Host swaggerSpec) ''/''
             @ ''/'' @ TrimPrefix (BasePath swaggerSpec) ''/''))"
    by (cases "Servers swaggerSpec") (simp_all add: baseURL_of_def HasPrefix_def Let_def)
  have url: "reqURL_of swaggerSpec apiCfg path =
        TrimSuffix (baseURL_of swaggerSpec apiCfg) ''/'' @ ''/'' @ TrimPrefix path ''/''"
    by (simp add: reqURL_of_def)
  from base tool ex1 ex2 url TrimSuffix_slash [of s] TrimPrefix_slash [of s] show ?thesis
    by blast
qed

theorem C3_request_URL_witness:
  "baseURL_of petStore apiCfg0 = ''https://api.example.com/v1''
   \<and> baseURL_of orderApi apiCfg0 = ''http://x''
   \<and> reqURL_of petStore apiCfg0 ''/pets/{id}'' = ''https://api.example.com/v1/pets/{id}''"
proof -
  have h1: "BaseUrl apiCfg0 = [] \<and> OpenAPI petStore = [] \<and> Host petStore = ''api.example.com''
        \<and> BasePath petStore = ''/v1''"
    by (simp add: apiCfg0_def petStore_def)
  have b1: "baseURL_of petStore apiCfg0 = ''https://api.example.com/v1''"
    using C3_request_URL [where apiCfg = apiCfg0 and swaggerSpec = petStore] h1 by blast
  have h2: "BaseUrl apiCfg0 = [] \<and> OpenAPI orderApi \<noteq> []
        \<and> Servers orderApi = [\<lparr>Server_URL = ''http://x/''\<rparr>]"
    by (simp add: apiCfg0_def orderApi_def)
  have b2: "baseURL_of orderApi apiCfg0 = ''http://x''"
    using C3_request_URL [where apiCfg = apiCfg0 and swaggerSpec = orderApi] h2 by blast
  have "reqURL_of petStore apiCfg0 ''/pets/{id}'' =
        TrimSuffix (baseURL_of petStore apiCfg0) ''/'' @ ''/'' @ TrimPrefix ''/pets/{id}'' ''/''"
    using C3_request_URL [where apiCfg = apiCfg0 and swaggerSpec = petStore
        and path = "''/pets/{id}''"]
    by blast
  then have u: "reqURL_of petStore apiCfg0 ''/pets/{id}'' = ''https://api.example.com/v1/pets/{id}''"
    by (simp add: b1 TrimSuffix_slash TrimPrefix_slash)
  from b1 b2 u show ?thesis by blast
qed

subsection \<open>C4: the path filter\<close>

text \<open>
  C4. With an empty include list a path is accepted iff no exclude pattern matches it;
  with a non-empty include list and an empty exclude list it is accepted iff some
  include pattern matches it; and a path that an exclude pattern matches is rejected
  whatever the include list is. The lists are the compiled patterns, and matching is
  the library's \<^verbatim>\<open>MatchString\<close>.
\<close>

theorem C4_shouldIncludePath:
  "shouldIncludePath l P [] excludeList = (\<forall>r \<in> set excludeList. \<not> regexp_MatchString l r P)
   \<and> (includeList \<noteq> [] \<longrightarrow>
        shouldIncludePath l P includeList [] = (\<exists>r \<in> set includeList. regexp_MatchString l r P))
   \<and> ((\<exists>r \<in> set excludeList. regexp_MatchString l r P) \<longrightarrow>
        \<not> shouldIncludePath l P includeList excludeList)"
  by (auto simp: shouldIncludePath_def list_ex_iff)

theorem C4_shouldIncludePath_witness:
  "shouldIncludePath lib0 ''/pets/1'' [] [''/admin'']
   \<and> \<not> shouldIncludePath lib0 ''/admin/users'' [] [''/admin'']
   \<and> shouldIncludePath lib0 ''/pets/1'' [''/pets'', ''/orders''] []
   \<and> \<not> shouldIncludePath lib0 ''/admin/users'' [''/pets'', ''/admin''] [''/admin'']"
proof -
  have m: "regexp_MatchString lib0 = (\<lambda>r p. prefix r p)" by (simp add: lib0_def)
  have a: "\<forall>r \<in> set [''/admin'']. \<not> regexp_MatchString lib0 r ''/pets/1''"
    by (simp add: m)
  have b: "\<not> (\<forall>r \<in> set [''/admin'']. \<not> regexp_MatchString lib0 r ''/admin/users'')"
    by (simp add: m)
  have c: "[''/pets'', ''/orders''] \<noteq> []
      \<and> (\<exists>r \<in> set [''/pets'', ''/orders'']. regexp_MatchString lib0 r ''/pets/1'')"
    by (simp add: m)
  have d: "\<exists>r \<in> set [''/admin'']. regexp_MatchString lib0 r ''/admin/users''"
    by (simp add: m)
  from a have 1: "shouldIncludePath lib0 ''/pets/1'' [] [''/admin'']"
    using C4_shouldIncludePath [of lib0 "''/pets/1''" "[''/admin'']" "[]"] by blast
  from b have 2: "\<not> shouldIncludePath lib0 ''/admin/users'' [] [''/admin'']"
    using C4_shouldIncludePath [of lib0 "''/admin/users''" "[''/admin'']" "[]"] by blast
  from c have 3: "shouldIncludePath lib0 ''/pets/1'' [''/pets'', ''/orders''] []"
    using C4_shouldIncludePath [of lib0 "''/pets/1''" "[]" "[''/pets'', ''/orders'']"] by blast
  from d have 4: "\<not> shouldIncludePath lib0 ''/admin/users'' [''/pets'', ''/admin''] [''/admin'']"
    using C4_shouldIncludePath [of lib0 "''/admin/users''" "[''/admin'']" "[''/pets'', ''/admin'']"]
    by blast
  from 1 2 3 4 show ?thesis by blast
qed

subsection \<open>C5: one tool per retained operation, named after method and path\<close>



subsection \<open>C6: API-key security\<close>

text \<open>
  C6. In mode \<^verbatim>\<open>apiKey\<close> with the credential \<^verbatim>\<open>query:token=abc123\<close>, and a request
  whose URL re-parses (the program prints the URL and parses it again; a URL that does
  not re-parse is left alone), the request comes back with only its raw query changed:
  it is the encoding of the URL's query values with \<^verbatim>\<open>token\<close> set to
  \<^verbatim>\<open>abc123\<close>, and \<^verbatim>\<open>token=abc123\<close> is one of its \<^verbatim>\<open>&\<close>-separated pairs. No
  header is touched, so no \<^verbatim>\<open>Authorization\<close> header is set, whatever the basic and
  bearer credentials are.
  In general the mode runs \<open>apiKeyPart\<close> over the comma-separated parts, then merges
  the collected query values into the URL, then adds the collected cookies. A trimmed
  part without \<^verbatim>\<open>:\<close> or without \<^verbatim>\<open>=\<close>, or whose first \<^verbatim>\<open>=\<close> stands before the
  position of the first \<^verbatim>\<open>:\<close> plus 2, leaves the state as it is. A part
  \<^verbatim>\<open>location:name=value\<close> with a non-empty name sets the header \<open>name\<close> for the
  location \<^verbatim>\<open>header\<close>, assigns \<open>name\<close> in the query values for \<^verbatim>\<open>query\<close>
  (an assignment replaces what the URL or an earlier part gave that name), appends a
  cookie for \<^verbatim>\<open>cookie\<close>, and does nothing for any other location. A cookie is
  appended to the \<^verbatim>\<open>Cookie\<close> header.
\<close>

theorem C6_apiKey_security:
  "(url_Parse l (url_String l (Request_URL req)) = Inr u \<longrightarrow>
      setRequestSecurity l req ''apiKey'' basicAuth ''query:token=abc123'' bearerAuth =
        req\<lparr>Request_URL :=
              u\<lparr>RawQuery := Values_Encode
                    (Values_Set (url_ParseQuery l (RawQuery u)) ''token'' ''abc123'')\<rparr>\<rparr>)
   \<and> (url_Parse l (url_String l (Request_URL req)) = Inr u \<longrightarrow>
        ''token=abc123'' \<in> set (Split (RawQuery (Request_URL
            (setRequestSecurity l req ''apiKey'' basicAuth ''query:token=abc123'' bearerAuth)))
            (CHR ''&'')))
   \<and> Header (setRequestSecurity l req ''apiKey'' basicAuth ''query:token=abc123'' bearerAuth)
        = Header req
   \<and> (TrimSpace security = ''apiKey'' \<and> apiKeyAuth \<noteq> [] \<longrightarrow>
        setRequestSecurity l req security basicAuth apiKeyAuth bearerAuth =
          (case foldl (apiKeyPart l) (req, [], []) (Split apiKeyAuth (CHR '','')) of
             (req3, queryValues, cookieValues) \<Rightarrow>
               foldl (\<lambda>r (name, v). AddCookie l r name v)
                 (addQuery l req3 queryValues) cookieValues))
   \<and> (CHR '':'' \<notin> set (TrimSpace part) \<or> CHR ''='' \<notin> set (TrimSpace part)
        \<or> Index (TrimSpace part) (CHR ''='') < Index (TrimSpace part) (CHR '':'') + 2 \<longrightarrow>
        apiKeyPart l st part = st)
   \<and> (TrimSpace part = loc @ CHR '':'' # nm @ CHR ''='' # vl
        \<and> CHR '':'' \<notin> set loc \<and> CHR ''='' \<notin> set loc \<and> CHR ''='' \<notin> set nm \<and> nm \<noteq> [] \<longrightarrow>
        apiKeyPart l (req, qv, cv) part =
          (if ToLower l (TrimSpace loc) = ''header'' then
             (req\<lparr>Header := Header_Set l (Header req) (TrimSpace nm) (TrimSpace vl)\<rparr>, qv, cv)
           else if ToLower l (TrimSpace loc) = ''query'' then
             (req, AList.update (TrimSpace nm) (TrimSpace vl) qv, cv)
           else if ToLower l (TrimSpace loc) = ''cookie'' then
             (req, qv, cv @ [(TrimSpace nm, TrimSpace vl)])
           else (req, qv, cv)))
   \<and> (qv \<noteq> [] \<and> url_Parse l (url_String l (Request_URL req)) = Inr u \<longrightarrow>
        addQuery l req qv =
          req\<lparr>Request_URL :=
                u\<lparr>RawQuery := Values_Encode (foldl (\<lambda>q (k, v). Values_Set q k v)
                                    (url_ParseQuery l (RawQuery u)) qv)\<rparr>\<rparr>)
   \<and> map_of (Values_Set q k x) = (map_of q)(k \<mapsto> [x])
   \<and> Header_Get l (Header (AddCookie l req k x)) ''Cookie'' =
       (if Header_Get l (Header req) ''Cookie'' = [] then http_cookieString l k x
        else Header_Get l (Header req) ''Cookie'' @ ''; '' @ http_cookieString l k x)"
proof -
  have ex: "url_Parse l (url_String l (Request_URL req)) = Inr u \<longrightarrow>
      setRequestSecurity l req ''apiKey'' basicAuth ''query:token=abc123'' bearerAuth =
        req\<lparr>Request_URL :=
              u\<lparr>RawQuery := Values_Encode
                    (Values_Set (url_ParseQuery l (RawQuery u)) ''token'' ''abc123'')\<rparr>\<rparr>"
    by (simp add: example_security addQuery_def)
  have mem: "url_Parse l (url_String l (Request_URL req)) = Inr u \<longrightarrow>
        ''token=abc123'' \<in> set (Split (RawQuery (Request_URL
            (setRequestSecurity l req ''apiKey'' basicAuth ''query:token=abc123'' bearerAuth)))
            (CHR ''&''))"
  proof
    assume p: "url_Parse l (url_String l (Request_URL req)) = Inr u"
    have "QueryEscape ''token'' @ CHR ''='' # QueryEscape ''abc123''
        \<in> set (Split (Values_Encode (Values_Set (url_ParseQuery l (RawQuery u)) ''token'' ''abc123''))
                 (CHR ''&''))"
      by (rule Encode_Set)
    then have "''token=abc123''
        \<in> set (Split (Values_Encode (Values_Set (url_ParseQuery l (RawQuery u)) ''token'' ''abc123''))
                 (CHR ''&''))"
      by (simp add: QueryEscape_token QueryEscape_abc123)
    with ex p show "''token=abc123'' \<in> set (Split (RawQuery (Request_URL
            (setRequestSecurity l req ''apiKey'' basicAuth ''query:token=abc123'' bearerAuth)))
            (CHR ''&''))"
      by simp
  qed
  have hdr: "Header (setRequestSecurity l req ''apiKey'' basicAuth ''query:token=abc123'' bearerAuth)
        = Header req"
    by (simp add: example_security addQuery_Header)
  have skip: "CHR '':'' \<notin> set (TrimSpace part) \<or> CHR ''='' \<notin> set (TrimSpace part)
        \<or> Index (TrimSpace part) (CHR ''='') < Index (TrimSpace part) (CHR '':'') + 2 \<longrightarrow>
        apiKeyPart l st part = st"
    using apiKeyPart_skip [OF refl, of part l st] by blast
  have entry: "TrimSpace part = loc @ CHR '':'' # nm @ CHR ''='' # vl
        \<and> CHR '':'' \<notin> set loc \<and> CHR ''='' \<notin> set loc \<and> CHR ''='' \<notin> set nm \<and> nm \<noteq> [] \<longrightarrow>
        apiKeyPart l (req, qv, cv) part =
          (if ToLower l (TrimSpace loc) = ''header'' then
             (req\<lparr>Header := Header_Set l (Header req) (TrimSpace nm) (TrimSpace vl)\<rparr>, qv, cv)
           else if ToLower l (TrimSpace loc) = ''query'' then
             (req, AList.update (TrimSpace nm) (TrimSpace vl) qv, cv)
           else if ToLower l (TrimSpace loc) = ''cookie'' then
             (req, qv, cv @ [(TrimSpace nm, TrimSpace vl)])
           else (req, qv, cv))"
    using apiKeyPart_entry [of part loc nm vl l req qv cv] by blast
  show ?thesis
    by (intro conjI)
      (rule ex mem hdr setRequestSecurity_apiKey skip entry addQuery_parsed map_of_Values_Set
        AddCookie_Cookie)+
qed

theorem C6_apiKey_security_witness:
  "setRequestSecurity lib0 getPets ''apiKey'' [] ''query:token=abc123'' [] =
     getPets\<lparr>Request_URL := \<lparr>URL_Rest = ''https://api.example.com/v1/pets'',
                                RawQuery = ''token=abc123''\<rparr>\<rparr>
   \<and> Header (setRequestSecurity lib0 getPets ''apiKey'' [] ''query:token=abc123'' []) = []
   \<and> apiKeyPart lib0 (getPets, [], []) ''bogus'' = (getPets, [], [])
   \<and> apiKeyPart lib0 (getPets, [], []) ''x:=1'' = (getPets, [], [])
   \<and> apiKeyPart lib0 (getPets, [], []) '' header:X-Key=k1'' =
       (getPets\<lparr>Header := [(''X-Key'', [''k1''])]\<rparr>, [], [])
   \<and> addQuery lib0 getPets [(''token'', ''abc123'')] =
       getPets\<lparr>Request_URL := \<lparr>URL_Rest = ''https://api.example.com/v1/pets'',
                                  RawQuery = ''token=abc123''\<rparr>\<rparr>"
proof -
  let ?u = "\<lparr>URL_Rest = ''https://api.example.com/v1/pets'', RawQuery = []\<rparr>"
  note c6 = C6_apiKey_security [where l = lib0 and req = getPets]
  have parse: "url_Parse lib0 (url_String lib0 (Request_URL getPets)) = Inr ?u"
    by (simp add: lib0_def getPets_def)
  have enc: "Values_Encode (Values_Set (url_ParseQuery lib0 []) ''token'' ''abc123'')
      = ''token=abc123''"
    by (simp add: lib0_def Values_Encode_def encodedPairs_def Values_Set_def
        QueryEscape_token QueryEscape_abc123)
  from c6 [where u = ?u and basicAuth = "[]" and bearerAuth = "[]", THEN conjunct1] parse
  have "setRequestSecurity lib0 getPets ''apiKey'' [] ''query:token=abc123'' [] =
      getPets\<lparr>Request_URL := ?u\<lparr>RawQuery := Values_Encode
          (Values_Set (url_ParseQuery lib0 (RawQuery ?u)) ''token'' ''abc123'')\<rparr>\<rparr>"
    by (rule mp)
  then have w1: "setRequestSecurity lib0 getPets ''apiKey'' [] ''query:token=abc123'' [] =
     getPets\<lparr>Request_URL := \<lparr>URL_Rest = ''https://api.example.com/v1/pets'',
                                RawQuery = ''token=abc123''\<rparr>\<rparr>"
    by (simp add: enc)
  from c6 [where basicAuth = "[]" and bearerAuth = "[]", THEN conjunct2, THEN conjunct2,
      THEN conjunct1]
  have w2: "Header (setRequestSecurity lib0 getPets ''apiKey'' [] ''query:token=abc123'' []) = []"
    by (simp add: getPets_def)
  have "CHR '':'' \<notin> set (TrimSpace ''bogus'')"
    by (simp add: TrimSpace_def spaceRunes_def)
  with c6 [where part = "''bogus''" and st = "(getPets, [], [])",
      THEN conjunct2, THEN conjunct2, THEN conjunct2, THEN conjunct2, THEN conjunct1]
  have w3: "apiKeyPart lib0 (getPets, [], []) ''bogus'' = (getPets, [], [])"
    by blast
  have "Index (TrimSpace ''x:=1'') (CHR ''='') < Index (TrimSpace ''x:=1'') (CHR '':'') + 2"
    by (simp add: TrimSpace_def spaceRunes_def Index_def)
  with c6 [where part = "''x:=1''" and st = "(getPets, [], [])",
      THEN conjunct2, THEN conjunct2, THEN conjunct2, THEN conjunct2, THEN conjunct1]
  have w4: "apiKeyPart lib0 (getPets, [], []) ''x:=1'' = (getPets, [], [])"
    by blast
  have shape: "TrimSpace '' header:X-Key=k1'' = ''header'' @ CHR '':'' # ''X-Key'' @ CHR ''='' # ''k1''
      \<and> CHR '':'' \<notin> set ''header'' \<and> CHR ''='' \<notin> set ''header'' \<and> CHR ''='' \<notin> set ''X-Key''
      \<and> ''X-Key'' \<noteq> []"
    by (simp add: TrimSpace_def spaceRunes_def)
  from c6 [where part = "'' header:X-Key=k1''" and loc = "''header''" and nm = "''X-Key''"
      and vl = "''k1''" and qv = "[]" and cv = "[]",
      THEN conjunct2, THEN conjunct2, THEN conjunct2, THEN conjunct2,
      THEN conjunct2, THEN conjunct1] shape
  have "apiKeyPart lib0 (getPets, [], []) '' header:X-Key=k1'' =
          (if ToLower lib0 (TrimSpace ''header'') = ''header'' then
             (getPets\<lparr>Header := Header_Set lib0 (Header getPets) (TrimSpace ''X-Key'') (TrimSpace ''k1'')\<rparr>, [], [])
           else if ToLower lib0 (TrimSpace ''header'') = ''query'' then
             (getPets, AList.update (TrimSpace ''X-Key'') (TrimSpace ''k1'') [], [])
           else if ToLower lib0 (TrimSpace ''header'') = ''cookie'' then
             (getPets, [], [] @ [(TrimSpace ''X-Key'', TrimSpace ''k1'')])
           else (getPets, [], []))"
    by (rule mp)
  then have w5: "apiKeyPart lib0 (getPets, [], []) '' header:X-Key=k1'' =
       (getPets\<lparr>Header := [(''X-Key'', [''k1''])]\<rparr>, [], [])"
    by (simp add: TrimSpace_def spaceRunes_def ToLower_def isASCII_def lowerByte_def Header_Set_def lib0_def
        getPets_def)
  have "[(''token'', ''abc123'')] \<noteq> [] \<and> url_Parse lib0 (url_String lib0 (Request_URL getPets)) = Inr ?u"
    using parse by simp
  with c6 [where qv = "[(''token'', ''abc123'')]" and u = ?u,
      THEN conjunct2, THEN conjunct2, THEN conjunct2, THEN conjunct2,
      THEN conjunct2, THEN conjunct2, THEN conjunct1]
  have "addQuery lib0 getPets [(''token'', ''abc123'')] =
      getPets\<lparr>Request_URL := ?u\<lparr>RawQuery := Values_Encode (foldl (\<lambda>q (k, v). Values_Set q k v)
                                    (url_ParseQuery lib0 (RawQuery ?u)) [(''token'', ''abc123'')])\<rparr>\<rparr>"
    by (rule mp)
  then have w6: "addQuery lib0 getPets [(''token'', ''abc123'')] =
       getPets\<lparr>Request_URL := \<lparr>URL_Rest = ''https://api.example.com/v1/pets'',
                                  RawQuery = ''token=abc123''\<rparr>\<rparr>"
    using enc by simp
  show ?thesis
    by (intro conjI) (rule w1 w2 w3 w4 w5 w6)+
qed

subsection \<open>C7: no fault escapes\<close>

text \<open>
  C7. The derivation does fault. On each of the three documents the claim names (a
  body parameter without a schema object, a media type without a schema, a request
  body in a document without components) \<^verbatim>\<open>LoadSwaggerServer\<close> reads a field
  through a \<^verbatim>\<open>nil\<close> pointer (lines 245, 261 and 263) and panics; nothing recovers
  the panic. The neighbouring reads are guarded (lines 258, 269 and 291).
\<close>

theorem C7_derivation_faults:
  "LoadSwaggerServer l noParamSchema apiCfg0 = Inl NilPointerDereference
   \<and> LoadSwaggerServer l noMediaSchema apiCfg0 = Inl NilPointerDereference
   \<and> LoadSwaggerServer l noComponents apiCfg0 = Inl NilPointerDereference"
proof -
  have a: "LoadSwaggerServer l noParamSchema apiCfg0 = Inl NilPointerDereference"
    by (simp add: load_apiCfg0 noParamSchema_def keep_all_paths keep_all_methods deriveTool_def
        paramsIn_def)
  have b: "LoadSwaggerServer l noMediaSchema apiCfg0 = Inl NilPointerDereference"
    by (simp add: load_apiCfg0 noMediaSchema_def keep_all_paths keep_all_methods deriveTool_def
        paramsIn_def placeOrder_def)
  have c: "LoadSwaggerServer l noComponents apiCfg0 = Inl NilPointerDereference"
    by (simp add: load_apiCfg0 noComponents_def orderApi_def keep_all_paths keep_all_methods
        deriveTool_def paramsIn_def placeOrder_def orderSchema_def)
  from a b c show ?thesis by (intro conjI)
qed

subsection \<open>C8: schema names\<close>

text \<open>
  C8. Schema-name extraction is a function of its two arguments. For a non-empty
  reference the result is the part of the reference after its last \<^verbatim>\<open>/\<close> (all of
  the reference when it has none), whatever the inline type is; for an empty
  reference the result is the inline type.
\<close>

theorem C8_ExtractSchemaName:
  "(ref \<noteq> [] \<and> CHR ''/'' \<in> set ref \<longrightarrow>
      (\<exists>pre. ref = pre @ CHR ''/'' # ExtractSchemaName ref schemaType)
      \<and> CHR ''/'' \<notin> set (ExtractSchemaName ref schemaType))
   \<and> (ref \<noteq> [] \<and> CHR ''/'' \<notin> set ref \<longrightarrow> ExtractSchemaName ref schemaType = ref)
   \<and> (ref = [] \<longrightarrow> ExtractSchemaName ref schemaType = schemaType)"
  using last_Split_suffix [of "CHR ''/''" ref] last_Split_no_sep [of "CHR ''/''" ref]
    Split_whole [of "CHR ''/''" ref]
  by (simp add: ExtractSchemaName_def)

theorem C8_ExtractSchemaName_witness:
  "ExtractSchemaName ''#/definitions/Pet'' ''object'' = ''Pet''
   \<and> (\<exists>pre. ''#/definitions/Pet'' = pre @ CHR ''/'' # ''Pet'')
   \<and> ExtractSchemaName ''Pet'' ''object'' = ''Pet''
   \<and> ExtractSchemaName [] ''object'' = ''object''"
proof -
  have v: "ExtractSchemaName ''#/definitions/Pet'' ''object'' = ''Pet''"
    by (simp add: ExtractSchemaName_def)
  have h: "''#/definitions/Pet'' \<noteq> [] \<and> CHR ''/'' \<in> set ''#/definitions/Pet''"
    by simp
  have "\<exists>pre. ''#/definitions/Pet'' = pre @ CHR ''/'' # ExtractSchemaName ''#/definitions/Pet'' ''object''"
    using C8_ExtractSchemaName [of "''#/definitions/Pet''" "''object''"] h by blast
  then have e: "\<exists>pre. ''#/definitions/Pet'' = pre @ CHR ''/'' # ''Pet''"
    by (simp only: v)
  have h2: "''Pet'' \<noteq> [] \<and> CHR ''/'' \<notin> set ''Pet''"
    by simp
  have p: "ExtractSchemaName ''Pet'' ''object'' = ''Pet''"
    using C8_ExtractSchemaName [of "''Pet''" "''object''"] h2 by blast
  have n: "ExtractSchemaName [] ''object'' = ''object''"
    using C8_ExtractSchemaName [of "[]" "''object''"] by blast
  from v e p n show ?thesis by blast
qed

subsection \<open>C10: the fields of array items\<close>

text \<open>
  C10, as amended. Take a derived tool of an operation with a request body, a content
  entry whose schema resolves to a definition with a property of type \<^verbatim>\<open>array\<close>,
  the nested schema that the media type's schema holds under the schema's name, and a
  property of that nested schema's items. Then the item property is declared as a
  required string input, and the loop over the item properties adds nothing to the
  body field map: the keys of the map are exactly the names of the resolved top-level
  properties. So for an item property whose name is not also the name of a resolved
  top-level property, the name is not a key of the map, body assembly yields the same
  result whatever the arguments hold under that name, and the body of every request
  sent is the JSON printing of a map without that name. The entries are the map's in
  any visiting order.
\<close>

theorem C10_nested_item_fields:
  assumes "deriveTool swaggerSpec apiCfg path method details = Inr tool"
    and "Endpoint_RequestBody details = Some body"
    and "(contentType, mediaType) \<in> set (Content body)"
    and "MediaType_Schema mediaType = Some schema"
    and "Spec_Components swaggerSpec = Some components"
    and "map_of (Schemas components)
           (ExtractSchemaName (SchemaRef_Ref schema) (SchemaRef_Type schema)) = Some defn"
    and "(propName, prop) \<in> set (Definition_Properties defn)"
    and "Property_Type prop = ''array''"
    and "map_of (SchemaRef_Properties schema)
           (ExtractSchemaName (SchemaRef_Ref schema) (SchemaRef_Type schema)) = Some (Some schemaProp)"
    and "SchemaRef_Items schemaProp = Some items"
    and "(itemName, Some itemProp) \<in> set (SchemaRef_Properties items)"
  shows
   "WithString itemName
       (''The item  for '' @ itemName @ '', it should be in format of '' @ SchemaRef_Type itemProp)
       True \<in> set (Tool_Options tool)
    \<and> fst ` set (Tool_reqBody tool) = fst ` set (resolvedProps swaggerSpec details)
    \<and> (itemName \<notin> fst ` set (resolvedProps swaggerSpec details) \<longrightarrow>
         itemName \<notin> fst ` set (Tool_reqBody tool)
         \<and> (\<forall>entries arguments x. fst ` set entries = fst ` set (Tool_reqBody tool) \<longrightarrow>
               bodyLoop l (arguments(itemName := x)) entries Map.empty
                 = bodyLoop l arguments entries Map.empty)
         \<and> (\<forall>entries arguments. fst ` set entries = fst ` set (Tool_reqBody tool) \<longrightarrow>
               (\<forall>r \<in> set (outbound (CreateMCPToolHandler l (Tool_reqPathParam tool)
                                (Tool_reqQueryParam tool) (Tool_reqURL tool) entries
                                (Tool_reqMethod tool) (Tool_reqHeader tool) apiCfg ctx arguments)).
                  \<exists>data. json_Marshal l data = Inr (Body r) \<and> data itemName = None)))"
proof -
  have opt: "WithString itemName
       (''The item  for '' @ itemName @ '', it should be in format of '' @ SchemaRef_Type itemProp)
       True \<in> set (Tool_Options tool)"
    using deriveTool_item_option [OF assms] by (simp add: itemOption_def)
  have keys: "fst ` set (Tool_reqBody tool) = fst ` set (resolvedProps swaggerSpec details)"
    by (simp add: deriveTool_reqBody [OF assms(1)] keys_assign)
  have rest: "itemName \<notin> fst ` set (resolvedProps swaggerSpec details) \<longrightarrow>
         itemName \<notin> fst ` set (Tool_reqBody tool)
         \<and> (\<forall>entries arguments x. fst ` set entries = fst ` set (Tool_reqBody tool) \<longrightarrow>
               bodyLoop l (arguments(itemName := x)) entries Map.empty
                 = bodyLoop l arguments entries Map.empty)
         \<and> (\<forall>entries arguments. fst ` set entries = fst ` set (Tool_reqBody tool) \<longrightarrow>
               (\<forall>r \<in> set (outbound (CreateMCPToolHandler l (Tool_reqPathParam tool)
                                (Tool_reqQueryParam tool) (Tool_reqURL tool) entries
                                (Tool_reqMethod tool) (Tool_reqHeader tool) apiCfg ctx arguments)).
                  \<exists>data. json_Marshal l data = Inr (Body r) \<and> data itemName = None))"
  proof
    assume no: "itemName \<notin> fst ` set (resolvedProps swaggerSpec details)"
    with keys have nk: "itemName \<notin> fst ` set (Tool_reqBody tool)" by simp
    have indep: "\<forall>entries arguments x. fst ` set entries = fst ` set (Tool_reqBody tool) \<longrightarrow>
               bodyLoop l (arguments(itemName := x)) entries Map.empty
                 = bodyLoop l arguments entries Map.empty"
    proof (intro allI impI)
      fix entries :: "(string \<times> string) list" and arguments :: "string \<rightharpoonup> json" and x
      assume "fst ` set entries = fst ` set (Tool_reqBody tool)"
      with nk have "\<forall>n \<in> fst ` set entries. (arguments(itemName := x)) n = arguments n"
        by auto
      then show "bodyLoop l (arguments(itemName := x)) entries Map.empty
                 = bodyLoop l arguments entries Map.empty"
        by (rule bodyLoop_cong)
    qed
    have sent: "\<forall>entries arguments. fst ` set entries = fst ` set (Tool_reqBody tool) \<longrightarrow>
               (\<forall>r \<in> set (outbound (CreateMCPToolHandler l (Tool_reqPathParam tool)
                                (Tool_reqQueryParam tool) (Tool_reqURL tool) entries
                                (Tool_reqMethod tool) (Tool_reqHeader tool) apiCfg ctx arguments)).
                  \<exists>data. json_Marshal l data = Inr (Body r) \<and> data itemName = None)"
    proof (intro allI impI ballI)
      fix entries :: "(string \<times> string) list" and arguments :: "string \<rightharpoonup> json" and r
      assume e: "fst ` set entries = fst ` set (Tool_reqBody tool)"
        and r: "r \<in> set (outbound (CreateMCPToolHandler l (Tool_reqPathParam tool)
                                (Tool_reqQueryParam tool) (Tool_reqURL tool) entries
                                (Tool_reqMethod tool) (Tool_reqHeader tool) apiCfg ctx arguments))"
      from handler_sent [OF r] obtain data where
        d: "bodyLoop l arguments entries Map.empty = Inr data"
        and m: "json_Marshal l data = Inr (Body r)"
        by blast
      from bodyLoop_dom [OF d] e nk have "itemName \<notin> dom data" by simp
      then have "data itemName = None" by auto
      with m show "\<exists>data. json_Marshal l data = Inr (Body r) \<and> data itemName = None"
        by blast
    qed
    from nk indep sent show "itemName \<notin> fst ` set (Tool_reqBody tool)
         \<and> (\<forall>entries arguments x. fst ` set entries = fst ` set (Tool_reqBody tool) \<longrightarrow>
               bodyLoop l (arguments(itemName := x)) entries Map.empty
                 = bodyLoop l arguments entries Map.empty)
         \<and> (\<forall>entries arguments. fst ` set entries = fst ` set (Tool_reqBody tool) \<longrightarrow>
               (\<forall>r \<in> set (outbound (CreateMCPToolHandler l (Tool_reqPathParam tool)
                                (Tool_reqQueryParam tool) (Tool_reqURL tool) entries
                                (Tool_reqMethod tool) (Tool_reqHeader tool) apiCfg ctx arguments)).
                  \<exists>data. json_Marshal l data = Inr (Body r) \<and> data itemName = None))"
      by (intro conjI)
  qed
  from opt keys rest show ?thesis by (intro conjI)
qed

theorem C10_nested_item_fields_witness:
  "\<exists>tool. deriveTool orderApi apiCfg0 ''/orders'' ''post'' placeOrder = Inr tool
     \<and> WithString ''sku'' ''The item  for sku, it should be in format of string'' True
           \<in> set (Tool_Options tool)
     \<and> fst ` set (Tool_reqBody tool) = {''lines'', ''note''}
     \<and> ''sku'' \<notin> fst ` set (Tool_reqBody tool)"
proof -
  obtain tool where t: "deriveTool orderApi apiCfg0 ''/orders'' ''post'' placeOrder = Inr tool"
    using placeOrder_tool by blast
  let ?items = "SchemaRef ''object''
                  [(''sku'', Some (SchemaRef ''string'' [] None [])),
                   (''qty'', Some (SchemaRef ''integer'' [] None []))] None []"
  let ?schemaProp = "SchemaRef ''array'' [] (Some ?items) []"
  let ?comps = "\<lparr>Schemas = [(''Order'', \<lparr>Definition_Properties =
                       [(''lines'', \<lparr>Property_Type = ''array''\<rparr>),
                        (''note'', \<lparr>Property_Type = ''string''\<rparr>)]\<rparr>)]\<rparr>"
  let ?defn = "\<lparr>Definition_Properties =
                       [(''lines'', \<lparr>Property_Type = ''array''\<rparr>),
                        (''note'', \<lparr>Property_Type = ''string''\<rparr>)]\<rparr>"
  have h2: "Endpoint_RequestBody placeOrder =
      Some \<lparr>Content = [(''application/json'', \<lparr>MediaType_Schema = Some orderSchema\<rparr>)]\<rparr>"
    by (simp add: placeOrder_def)
  have h3: "(''application/json'', \<lparr>MediaType_Schema = Some orderSchema\<rparr>)
      \<in> set (Content \<lparr>Content = [(''application/json'', \<lparr>MediaType_Schema = Some orderSchema\<rparr>)]\<rparr>)"
    by simp
  have h4: "MediaType_Schema \<lparr>MediaType_Schema = Some orderSchema\<rparr> = Some orderSchema" by simp
  have h5: "Spec_Components orderApi = Some ?comps" by (simp add: orderApi_def)
  have name: "ExtractSchemaName (SchemaRef_Ref orderSchema) (SchemaRef_Type orderSchema) = ''Order''"
    by (simp add: orderSchema_def ExtractSchemaName_Order)
  have h6: "map_of (Schemas ?comps)
      (ExtractSchemaName (SchemaRef_Ref orderSchema) (SchemaRef_Type orderSchema)) = Some ?defn"
    by (simp add: name)
  have h7: "(''lines'', \<lparr>Property_Type = ''array''\<rparr>) \<in> set (Definition_Properties ?defn)" by simp
  have h8: "Property_Type \<lparr>Property_Type = ''array''\<rparr> = ''array''" by simp
  have h9: "map_of (SchemaRef_Properties orderSchema)
      (ExtractSchemaName (SchemaRef_Ref orderSchema) (SchemaRef_Type orderSchema))
      = Some (Some ?schemaProp)"
    by (simp add: name) (simp add: orderSchema_def)
  have h10: "SchemaRef_Items ?schemaProp = Some ?items" by simp
  have h11: "(''sku'', Some (SchemaRef ''string'' [] None [])) \<in> set (SchemaRef_Properties ?items)"
    by simp
  note c10 = C10_nested_item_fields [OF t h2 h3 h4 h5 h6 h7 h8 h9 h10 h11, where l = lib0]
  from c10 [THEN conjunct1]
  have w1: "WithString ''sku'' ''The item  for sku, it should be in format of string'' True
           \<in> set (Tool_Options tool)"
    by simp
  from c10 [THEN conjunct2, THEN conjunct1]
  have w2: "fst ` set (Tool_reqBody tool) = {''lines'', ''note''}"
    by (simp add: resolved_orderApi)
  have "''sku'' \<notin> fst ` set (resolvedProps orderApi placeOrder)"
    by (simp add: resolved_orderApi)
  with c10 [THEN conjunct2, THEN conjunct2]
  have w3: "''sku'' \<notin> fst ` set (Tool_reqBody tool)"
    by blast
  from t w1 w2 w3 show ?thesis by (intro exI [of _ tool] conjI)
qed

text \<open>
  C10 as stated fails when an item property shares its name with a resolved
  top-level property: in \<open>clashApi\<close> the item property \<^verbatim>\<open>sku\<close> is declared by the
  item loop, the name \<^verbatim>\<open>sku\<close> is a key of the body field map with the type
  \<^verbatim>\<open>integer\<close>, and a call that supplies \<^verbatim>\<open>A1\<close> for it is rejected by the type
  check.
\<close>

theorem C10_nested_item_fields_counterexample:
  "\<exists>tool. deriveTool clashApi apiCfg0 ''/orders'' ''post'' placeOrder = Inr tool
     \<and> WithString ''sku'' ''The item  for sku, it should be in format of string'' True
           \<in> set (Tool_Options tool)
     \<and> map_of (Tool_reqBody tool) ''sku'' = Some ''integer''
     \<and> CreateMCPToolHandler lib0 (Tool_reqPathParam tool) (Tool_reqQueryParam tool)
          (Tool_reqURL tool) (Tool_reqBody tool) (Tool_reqMethod tool) (Tool_reqHeader tool)
          apiCfg0 None [''lines'' \<mapsto> JString ''[]'', ''sku'' \<mapsto> JString ''A1'']
        = \<lparr>toolResult = NewToolResultError ''[Error] invalid type for parameter sku, expected int'',
            handlerError = None, outbound = []\<rparr>"
proof -
  obtain tool where t: "deriveTool clashApi apiCfg0 ''/orders'' ''post'' placeOrder = Inr tool"
    using clash_tool by blast
  have body: "Tool_reqBody tool = [(''lines'', ''array''), (''sku'', ''integer'')]"
    by (simp add: deriveTool_reqBody [OF t] resolved_clashApi assign_def)
  have params: "Tool_reqPathParam tool = []" "Tool_reqQueryParam tool = []" "Tool_reqHeader tool = []"
    using deriveTool_fields(4-6) [OF t] by (simp_all add: placeOrder_def paramsIn_def)
  have opt: "WithString ''sku'' ''The item  for sku, it should be in format of string'' True
           \<in> set (Tool_Options tool)"
    using t
    by (auto simp: deriveTool_def placeOrder_def clashApi_def orderApi_def orderSchema_def
        paramsIn_def ExtractSchemaName_Order arrayItems_def itemOption_def)
  have look: "map_of (Tool_reqBody tool) ''sku'' = Some ''integer''"
    by (simp add: body)
  have call: "CreateMCPToolHandler lib0 (Tool_reqPathParam tool) (Tool_reqQueryParam tool)
          (Tool_reqURL tool) (Tool_reqBody tool) (Tool_reqMethod tool) (Tool_reqHeader tool)
          apiCfg0 None [''lines'' \<mapsto> JString ''[]'', ''sku'' \<mapsto> JString ''A1'']
        = \<lparr>toolResult = NewToolResultError ''[Error] invalid type for parameter sku, expected int'',
            handlerError = None, outbound = []\<rparr>"
    by (simp add: CreateMCPToolHandler_def body params queryStage_def argString_def coerce_def
        lib0_def failWith_def Atoi_def Let_def isDigit_def)
  from t opt look call show ?thesis by (intro exI [of _ tool] conjI)
qed

end
